theory Spec2Isabelle
  imports Main
begin

section \<open>Adoption service: domain\<close>

text \<open>
  The Go type \<open>ApplicationStatus\<close> is a named string type, so any string can inhabit it;
  the five constants are the values the domain package declares. A \<open>time.Time\<close> is an
  abstract instant (a natural number, the zero value being \<open>0\<close>); a \<open>time.Duration\<close> is
  a number of nanoseconds. Calls to \<open>log.Printf\<close> are not modelled.
\<close>

type_synonym ApplicationStatus = string
type_synonym Time = nat
type_synonym Duration = int

definition Second :: Duration where
  "Second = 1000000000"

definition Hour :: Duration where
  "Hour = 3600 * Second"

definition StatusAppUnspecified :: ApplicationStatus where
  "StatusAppUnspecified = ''UNSPECIFIED''"

definition StatusAppPendingReview :: ApplicationStatus where
  "StatusAppPendingReview = ''PENDING_REVIEW''"

definition StatusAppApproved :: ApplicationStatus where
  "StatusAppApproved = ''APPROVED''"

definition StatusAppRejected :: ApplicationStatus where
  "StatusAppRejected = ''REJECTED''"

definition StatusAppCancelledByUser :: ApplicationStatus where
  "StatusAppCancelledByUser = ''CANCELLED_BY_USER''"

record AdoptionApplication =
  ID :: string
  UserID :: string
  PetID :: string
  Status :: ApplicationStatus
  ApplicationNotes :: string
  ReviewNotes :: string
  CreatedAt :: Time
  UpdatedAt :: Time

text \<open>\<open>PrepareForCreate\<close>; the argument \<open>now\<close> is the value of \<open>time.Now().UTC()\<close>.\<close>

definition PrepareForCreate :: "Time \<Rightarrow> AdoptionApplication \<Rightarrow> AdoptionApplication" where
  "PrepareForCreate now app =
     (let app1 = app\<lparr>CreatedAt := now, UpdatedAt := now\<rparr>
      in if Status app1 = [] \<or> Status app1 = StatusAppUnspecified
         then app1\<lparr>Status := StatusAppPendingReview\<rparr>
         else app1)"

definition IsValidApplicationStatus :: "ApplicationStatus \<Rightarrow> bool" where
  "IsValidApplicationStatus status =
     (status = StatusAppPendingReview \<or> status = StatusAppApproved \<or>
      status = StatusAppRejected \<or> status = StatusAppCancelledByUser \<or>
      status = StatusAppUnspecified)"

section \<open>Errors\<close>

text \<open>
  \<open>ErrorNew m\<close> is \<open>errors.New(m)\<close>; \<open>Wrapped p e\<close> is \<open>fmt.Errorf(p + ": %w", e)\<close>;
  \<open>DriverError m\<close> is an error returned by a client library (MongoDB, Redis, NATS,
  gRPC, SMTP, encoding/json).
\<close>

datatype error = ErrorNew string | Wrapped string error | DriverError string

fun Error_msg :: "error \<Rightarrow> string" where
  "Error_msg (ErrorNew m) = m"
| "Error_msg (Wrapped p e) = p @ '': '' @ Error_msg e"
| "Error_msg (DriverError m) = m"

section \<open>The world of the adoption service\<close>

text \<open>
  The event data of the publisher is a JSON object; it is represented by its members.
\<close>

datatype json = JString string | JTime Time

type_synonym payload = "(string \<times> json) list"

definition json_field :: "payload \<Rightarrow> string \<Rightarrow> json option" where
  "json_field p k = map_of p k"

text \<open>
  The calls made on the three collaborators of the use case (repository, cache,
  publisher) and on the NATS connection are recorded in order, so that statements
  about which calls were made, and how often, can be written down.
\<close>

datatype call =
    RepoCreate AdoptionApplication
  | RepoGetByID string
  | RepoUpdateStatus string ApplicationStatus string
  | CacheGet string
  | CacheSet string AdoptionApplication Duration
  | CacheDelete string
  | PublishCreated AdoptionApplication
  | PublishStatusUpdated AdoptionApplication
  | NatsPublish string payload

record world =
  collection :: "AdoptionApplication list"
  prefix :: string
  redis :: "(string \<times> AdoptionApplication \<times> Duration) list"
  bus :: "(string \<times> payload) list"
  calls :: "call list"

text \<open>
  What the environment decides during one operation: the clock, the fresh object id,
  and for every client-library call whether it fails (and with which message).
\<close>

record env =
  now :: Time
  new_object_id :: string
  insert_err :: "string option"
  update_err :: "string option"
  find_err :: "string option"
  redis_get_err :: "string option"
  redis_set_err :: "string option"
  redis_del_err :: "string option"
  marshal_err :: "string option"
  publish_err :: "string option"

definition record_call :: "call \<Rightarrow> world \<Rightarrow> world" where
  "record_call c w = w\<lparr>calls := calls w @ [c]\<rparr>"

section \<open>MongoDB repository\<close>

text \<open>
  The collection is the list of its documents, the \<open>_id\<close> of a document being the
  \<open>ID\<close> field. \<open>InsertOne\<close> fails on a driver error or on a duplicate \<open>_id\<close>.
\<close>

definition InsertOne :: "env \<Rightarrow> AdoptionApplication \<Rightarrow> world \<Rightarrow> (error + unit) \<times> world" where
  "InsertOne e app w =
     (case insert_err e of
        Some m \<Rightarrow> (Inl (DriverError m), w)
      | None \<Rightarrow>
          if \<exists>d \<in> set (collection w). ID d = ID app
          then (Inl (DriverError ''E11000 duplicate key error''), w)
          else (Inr (), w\<lparr>collection := collection w @ [app]\<rparr>))"

definition FindOne :: "env \<Rightarrow> string \<Rightarrow> world \<Rightarrow> (error + AdoptionApplication option)" where
  "FindOne e i w =
     (case find_err e of
        Some m \<Rightarrow> Inl (DriverError m)
      | None \<Rightarrow> Inr (find (\<lambda>d. ID d = i) (collection w)))"

text \<open>\<open>UpdateOne\<close> with filter \<open>{_id: id}\<close> and \<open>$set\<close> of the three fields, on the first match.\<close>

fun set_first :: "string \<Rightarrow> (AdoptionApplication \<Rightarrow> AdoptionApplication) \<Rightarrow>
    AdoptionApplication list \<Rightarrow> AdoptionApplication list" where
  "set_first i f [] = []"
| "set_first i f (d # ds) = (if ID d = i then f d # ds else d # set_first i f ds)"

definition MatchedCount :: "string \<Rightarrow> AdoptionApplication list \<Rightarrow> nat" where
  "MatchedCount i ds = (if \<exists>d \<in> set ds. ID d = i then 1 else 0)"

definition UpdateOne :: "env \<Rightarrow> string \<Rightarrow> ApplicationStatus \<Rightarrow> string \<Rightarrow> Time \<Rightarrow> world \<Rightarrow>
    (error + nat) \<times> world" where
  "UpdateOne e i newStatus reviewNotes t w =
     (case update_err e of
        Some m \<Rightarrow> (Inl (DriverError m), w)
      | None \<Rightarrow>
          (Inr (MatchedCount i (collection w)),
           w\<lparr>collection :=
               set_first i (\<lambda>d. d\<lparr>Status := newStatus, ReviewNotes := reviewNotes, UpdatedAt := t\<rparr>)
                 (collection w)\<rparr>))"

definition repo_CreateAdoptionApplication ::
    "env \<Rightarrow> AdoptionApplication \<Rightarrow> world \<Rightarrow> (error + AdoptionApplication) \<times> world" where
  "repo_CreateAdoptionApplication e app w =
     (let w1 = record_call (RepoCreate app) w;
          app1 = (if ID app = [] then app\<lparr>ID := new_object_id e\<rparr> else app);
          app2 = PrepareForCreate (now e) app1
      in case InsertOne e app2 w1 of
           (Inl err, w2) \<Rightarrow> (Inl err, w2)
         | (Inr u, w2) \<Rightarrow> (Inr app2, w2))"

definition find_by_id :: "env \<Rightarrow> string \<Rightarrow> world \<Rightarrow> error + AdoptionApplication" where
  "find_by_id e i w =
     (case FindOne e i w of
        Inl err \<Rightarrow> Inl err
      | Inr None \<Rightarrow> Inl (ErrorNew ''adoption application not found'')
      | Inr (Some app) \<Rightarrow> Inr app)"

definition repo_GetAdoptionApplicationByID ::
    "env \<Rightarrow> string \<Rightarrow> world \<Rightarrow> (error + AdoptionApplication) \<times> world" where
  "repo_GetAdoptionApplicationByID e i w =
     (let w1 = record_call (RepoGetByID i) w in (find_by_id e i w1, w1))"

definition repo_UpdateAdoptionApplicationStatus ::
    "env \<Rightarrow> string \<Rightarrow> ApplicationStatus \<Rightarrow> string \<Rightarrow> world \<Rightarrow>
     (error + AdoptionApplication) \<times> world" where
  "repo_UpdateAdoptionApplicationStatus e i newStatus reviewNotes w =
     (let w1 = record_call (RepoUpdateStatus i newStatus reviewNotes) w
      in if i = [] then (Inl (ErrorNew ''application ID cannot be empty for status update''), w1)
         else if \<not> IsValidApplicationStatus newStatus
         then (Inl (ErrorNew ''invalid new application status provided''), w1)
         else case UpdateOne e i newStatus reviewNotes (now e) w1 of
                (Inl err, w2) \<Rightarrow> (Inl err, w2)
              | (Inr matched, w2) \<Rightarrow>
                  if matched = 0
                  then (Inl (ErrorNew ''adoption application not found for status update''), w2)
                  else (find_by_id e i w2, w2))"

section \<open>Redis cache\<close>

text \<open>
  The cache maps the key \<open>prefix + id\<close> to the application stored under it, together
  with the expiration it was set with; the JSON encoding of the application and its
  decoding are the identity on these values. \<open>GetAdoptionApplication\<close> returns either
  an application or an error (the fixed "not found in cache" error on a missing key),
  never neither. The passing of time, and with it the expiry of an entry, lies between
  operations and is not modelled.
\<close>

definition appKey :: "world \<Rightarrow> string \<Rightarrow> string" where
  "appKey w i = prefix w @ i"

definition cache_GetAdoptionApplication ::
    "env \<Rightarrow> string \<Rightarrow> world \<Rightarrow> (error + AdoptionApplication) \<times> world" where
  "cache_GetAdoptionApplication e i w =
     (let w1 = record_call (CacheGet i) w
      in case redis_get_err e of
           Some m \<Rightarrow> (Inl (DriverError m), w1)
         | None \<Rightarrow>
             (case map_of (redis w1) (appKey w1 i) of
                None \<Rightarrow> (Inl (ErrorNew ''adoption application not found in cache''), w1)
              | Some (app, ttl) \<Rightarrow> (Inr app, w1)))"

definition cache_SetAdoptionApplication ::
    "env \<Rightarrow> string \<Rightarrow> AdoptionApplication \<Rightarrow> Duration \<Rightarrow> world \<Rightarrow> error option \<times> world" where
  "cache_SetAdoptionApplication e i app expiration w =
     (let w1 = record_call (CacheSet i app expiration) w
      in case redis_set_err e of
           Some m \<Rightarrow> (Some (DriverError m), w1)
         | None \<Rightarrow>
             (None, w1\<lparr>redis := (appKey w1 i, app, expiration) #
                                 filter (\<lambda>kv. fst kv \<noteq> appKey w1 i) (redis w1)\<rparr>))"

definition cache_DeleteAdoptionApplication ::
    "env \<Rightarrow> string \<Rightarrow> world \<Rightarrow> error option \<times> world" where
  "cache_DeleteAdoptionApplication e i w =
     (let w1 = record_call (CacheDelete i) w
      in case redis_del_err e of
           Some m \<Rightarrow> (Some (DriverError m), w1)
         | None \<Rightarrow> (None, w1\<lparr>redis := filter (\<lambda>kv. fst kv \<noteq> appKey w1 i) (redis w1)\<rparr>))"

section \<open>NATS publisher\<close>

definition created_eventData :: "AdoptionApplication \<Rightarrow> payload" where
  "created_eventData app =
     [(''event_type'', JString ''AdoptionApplicationCreated''),
      (''application_id'', JString (ID app)),
      (''user_id'', JString (UserID app)),
      (''pet_id'', JString (PetID app)),
      (''status'', JString (Status app)),
      (''applied_at'', JTime (CreatedAt app))]"

definition status_updated_eventData :: "AdoptionApplication \<Rightarrow> payload" where
  "status_updated_eventData app =
     [(''event_type'', JString ''AdoptionApplicationStatusUpdated''),
      (''application_id'', JString (ID app)),
      (''user_id'', JString (UserID app)),
      (''pet_id'', JString (PetID app)),
      (''new_status'', JString (Status app)),
      (''updated_at'', JTime (UpdatedAt app)),
      (''review_notes'', JString (ReviewNotes app))]"

text \<open>
  \<open>json.Marshal\<close> followed by \<open>nc.Publish\<close>, shared by the two publisher methods. The
  error return of \<open>json.Marshal\<close> is an outcome of the environment; when it fails,
  nothing is handed to the connection. \<open>bus\<close> holds the messages the connection
  accepted.
\<close>

definition marshal_and_publish :: "env \<Rightarrow> string \<Rightarrow> payload \<Rightarrow> world \<Rightarrow> error option \<times> world" where
  "marshal_and_publish e subject eventData w =
     (case marshal_err e of
        Some m \<Rightarrow> (Some (DriverError m), w)
      | None \<Rightarrow>
          (let w1 = record_call (NatsPublish subject eventData) w
           in case publish_err e of
                Some m \<Rightarrow> (Some (DriverError m), w1)
              | None \<Rightarrow> (None, w1\<lparr>bus := bus w1 @ [(subject, eventData)]\<rparr>)))"

definition PublishAdoptionApplicationCreated ::
    "env \<Rightarrow> AdoptionApplication \<Rightarrow> world \<Rightarrow> error option \<times> world" where
  "PublishAdoptionApplicationCreated e app w =
     marshal_and_publish e ''adoption.application.created'' (created_eventData app)
       (record_call (PublishCreated app) w)"

definition PublishAdoptionApplicationStatusUpdated ::
    "env \<Rightarrow> AdoptionApplication \<Rightarrow> world \<Rightarrow> error option \<times> world" where
  "PublishAdoptionApplicationStatusUpdated e app w =
     marshal_and_publish e ''adoption.application.status.updated'' (status_updated_eventData app)
       (record_call (PublishStatusUpdated app) w)"

section \<open>Use case\<close>

record CreateAdoptionApplicationRequestData =
  req_UserID :: string
  req_PetID :: string
  req_ApplicationNotes :: string

record UpdateAdoptionApplicationStatusRequestData =
  req_NewStatus :: ApplicationStatus
  req_ReviewNotes :: string

definition uc_CreateAdoptionApplication ::
    "env \<Rightarrow> CreateAdoptionApplicationRequestData \<Rightarrow> world \<Rightarrow>
     (error + AdoptionApplication) \<times> world" where
  "uc_CreateAdoptionApplication e reqData w =
     (if req_UserID reqData = [] \<or> req_PetID reqData = []
      then (Inl (ErrorNew ''user ID and pet ID are required''), w)
      else
        let app = \<lparr>ID = [], UserID = req_UserID reqData, PetID = req_PetID reqData,
                   Status = [], ApplicationNotes = req_ApplicationNotes reqData,
                   ReviewNotes = [], CreatedAt = 0, UpdatedAt = 0\<rparr>
        in case repo_CreateAdoptionApplication e app w of
             (Inl err, w1) \<Rightarrow> (Inl (Wrapped ''could not create adoption application'' err), w1)
           | (Inr createdApp, w1) \<Rightarrow>
               (case PublishAdoptionApplicationCreated e createdApp w1 of
                  (pubErr, w2) \<Rightarrow> (Inr createdApp, w2)))"

definition uc_GetAdoptionApplicationByID ::
    "env \<Rightarrow> string \<Rightarrow> world \<Rightarrow> (error + AdoptionApplication) \<times> world" where
  "uc_GetAdoptionApplicationByID e applicationID w =
     (if applicationID = [] then (Inl (ErrorNew ''application ID is required''), w)
      else case cache_GetAdoptionApplication e applicationID w of
             (Inr cachedApp, w1) \<Rightarrow> (Inr cachedApp, w1)
           | (Inl cerr, w1) \<Rightarrow>
               (case repo_GetAdoptionApplicationByID e applicationID w1 of
                  (Inl err, w2) \<Rightarrow> (Inl err, w2)
                | (Inr app, w2) \<Rightarrow>
                    (case cache_SetAdoptionApplication e applicationID app (1 * Hour) w2 of
                       (cacheErr, w3) \<Rightarrow> (Inr app, w3))))"

definition uc_UpdateAdoptionApplicationStatus ::
    "env \<Rightarrow> string \<Rightarrow> UpdateAdoptionApplicationStatusRequestData \<Rightarrow> world \<Rightarrow>
     (error + AdoptionApplication) \<times> world" where
  "uc_UpdateAdoptionApplicationStatus e applicationID reqData w =
     (if applicationID = []
      then (Inl (ErrorNew ''application ID is required for status update''), w)
      else if \<not> IsValidApplicationStatus (req_NewStatus reqData)
      then (Inl (ErrorNew ''invalid new application status''), w)
      else case repo_UpdateAdoptionApplicationStatus e applicationID
                  (req_NewStatus reqData) (req_ReviewNotes reqData) w of
             (Inl err, w1) \<Rightarrow> (Inl (Wrapped ''could not update application status'' err), w1)
           | (Inr updatedApp, w1) \<Rightarrow>
               (case cache_DeleteAdoptionApplication e applicationID w1 of
                  (cacheErr, w2) \<Rightarrow>
                    (case PublishAdoptionApplicationStatusUpdated e updatedApp w2 of
                       (pubErr, w3) \<Rightarrow> (Inr updatedApp, w3))))"

section \<open>gRPC handler of the status update\<close>

text \<open>
  A proto3 enum is open: any 32-bit integer can arrive as \<open>new_status\<close>. The declared
  values are 0 (unspecified), 1, 2, 3 and 5.
\<close>

type_synonym pb_ApplicationStatus = int

definition pb_APPLICATION_STATUS_UNSPECIFIED :: pb_ApplicationStatus where
  "pb_APPLICATION_STATUS_UNSPECIFIED = 0"

definition pb_PENDING_REVIEW :: pb_ApplicationStatus where
  "pb_PENDING_REVIEW = 1"

definition pb_APPROVED :: pb_ApplicationStatus where
  "pb_APPROVED = 2"

definition pb_REJECTED :: pb_ApplicationStatus where
  "pb_REJECTED = 3"

definition pb_CANCELLED_BY_USER :: pb_ApplicationStatus where
  "pb_CANCELLED_BY_USER = 5"

definition pbApplicationStatusToDomain :: "pb_ApplicationStatus \<Rightarrow> ApplicationStatus" where
  "pbApplicationStatusToDomain pbStatus =
     (if pbStatus = pb_PENDING_REVIEW then StatusAppPendingReview
      else if pbStatus = pb_APPROVED then StatusAppApproved
      else if pbStatus = pb_REJECTED then StatusAppRejected
      else if pbStatus = pb_CANCELLED_BY_USER then StatusAppCancelledByUser
      else StatusAppUnspecified)"

definition domainApplicationStatusToPb :: "ApplicationStatus \<Rightarrow> pb_ApplicationStatus" where
  "domainApplicationStatusToPb domainStatus =
     (if domainStatus = StatusAppPendingReview then pb_PENDING_REVIEW
      else if domainStatus = StatusAppApproved then pb_APPROVED
      else if domainStatus = StatusAppRejected then pb_REJECTED
      else if domainStatus = StatusAppCancelledByUser then pb_CANCELLED_BY_USER
      else pb_APPLICATION_STATUS_UNSPECIFIED)"

record pb_AdoptionApplication =
  pb_Id :: string
  pb_UserId :: string
  pb_PetId :: string
  pb_Status :: pb_ApplicationStatus
  pb_ApplicationNotes :: string
  pb_ReviewNotes :: string
  pb_CreatedAt :: "Time option"
  pb_UpdatedAt :: "Time option"

definition domainAdoptionApplicationToPb :: "AdoptionApplication \<Rightarrow> pb_AdoptionApplication" where
  "domainAdoptionApplicationToPb da =
     \<lparr>pb_Id = ID da, pb_UserId = UserID da, pb_PetId = PetID da,
      pb_Status = domainApplicationStatusToPb (Status da),
      pb_ApplicationNotes = ApplicationNotes da, pb_ReviewNotes = ReviewNotes da,
      pb_CreatedAt = (if CreatedAt da \<noteq> 0 then Some (CreatedAt da) else None),
      pb_UpdatedAt = (if UpdatedAt da \<noteq> 0 then Some (UpdatedAt da) else None)\<rparr>"

datatype code = InvalidArgument | NotFound | Internal

record UpdateAdoptionApplicationStatusRequest =
  rq_ApplicationId :: string
  rq_NewStatus :: pb_ApplicationStatus
  rq_ReviewNotes :: string

text \<open>
  \<open>errors.Is(err, errors.New(m))\<close> compares \<open>err\<close>, and every error it wraps, with a
  freshly allocated error value by identity; no error of the use case is that value.
\<close>

definition errors_Is_new :: "error \<Rightarrow> string \<Rightarrow> bool" where
  "errors_Is_new err m = False"

definition handler_UpdateAdoptionApplicationStatus ::
    "env \<Rightarrow> UpdateAdoptionApplicationStatusRequest \<Rightarrow> world \<Rightarrow>
     ((code \<times> string) + pb_AdoptionApplication) \<times> world" where
  "handler_UpdateAdoptionApplicationStatus e req w =
     (if rq_ApplicationId req = [] then (Inl (InvalidArgument, ''Application ID is required''), w)
      else
        let domainStatus = pbApplicationStatusToDomain (rq_NewStatus req)
        in if domainStatus = StatusAppUnspecified \<and>
              rq_NewStatus req \<noteq> pb_APPLICATION_STATUS_UNSPECIFIED
           then (Inl (InvalidArgument, ''Invalid new application status provided in request''), w)
           else
             let reqData = \<lparr>req_NewStatus = domainStatus, req_ReviewNotes = rq_ReviewNotes req\<rparr>
             in case uc_UpdateAdoptionApplicationStatus e (rq_ApplicationId req) reqData w of
                  (Inl err, w1) \<Rightarrow>
                    if errors_Is_new err ''adoption application not found for status update'' \<or>
                       errors_Is_new err ''adoption application not found''
                    then (Inl (NotFound, ''Adoption application not found for status update''), w1)
                    else if errors_Is_new err ''invalid new application status''
                    then (Inl (InvalidArgument, Error_msg err), w1)
                    else if errors_Is_new err
                              ''adopter user ID is required when setting status to ADOPTED''
                    then (Inl (InvalidArgument, Error_msg err), w1)
                    else (Inl (Internal, ''Failed to update application status: '' @ Error_msg err),
                          w1)
                | (Inr updatedApp, w1) \<Rightarrow> (Inr (domainAdoptionApplicationToPb updatedApp), w1))"

section \<open>Notification service\<close>

record User =
  user_Id :: string
  user_Email :: string
  user_FullName :: string

record Pet =
  pet_Id :: string
  pet_Name :: string

text \<open>The generated getters are nil-safe: on a nil message they return the empty string.\<close>

definition GetEmail :: "User option \<Rightarrow> string" where
  "GetEmail u = (case u of None \<Rightarrow> [] | Some x \<Rightarrow> user_Email x)"

definition GetFullName :: "User option \<Rightarrow> string" where
  "GetFullName u = (case u of None \<Rightarrow> [] | Some x \<Rightarrow> user_FullName x)"

definition GetName :: "Pet option \<Rightarrow> string" where
  "GetName p = (case p of None \<Rightarrow> [] | Some x \<Rightarrow> pet_Name x)"

record AdoptionApplicationCreatedEvent =
  ev_EventType :: string
  ev_ApplicationID :: string
  ev_UserID :: string
  ev_PetID :: string
  ev_Status :: string
  ev_AppliedAt :: Time

record AdoptionApplicationStatusUpdatedEvent =
  su_EventType :: string
  su_ApplicationID :: string
  su_UserID :: string
  su_PetID :: string
  su_NewStatus :: string
  su_UpdatedAt :: Time
  su_ReviewNotes :: string

record email =
  mail_to :: "string list"
  mail_subject :: string
  mail_body :: string
  mail_isHTML :: bool

text \<open>
  The environment of one handler run: the answers of the two gRPC services (\<open>Inl\<close> an
  RPC error, \<open>Inr None\<close> a response without the message) and the outcome of the mail
  transport. The calls made on the three collaborators are recorded in order.
\<close>

record nenv =
  grpc_GetUser :: "string \<Rightarrow> string + User option"
  grpc_GetPet :: "string \<Rightarrow> string + Pet option"
  send_err :: "string option"

datatype ncall =
    CallGetUserDetails string
  | CallGetPetDetails string
  | CallSendEmail email

definition GetUserDetails :: "nenv \<Rightarrow> string \<Rightarrow> error + User option" where
  "GetUserDetails ne userID =
     (if userID = [] then Inl (ErrorNew ''user ID cannot be empty'')
      else case grpc_GetUser ne userID of
             Inl m \<Rightarrow> Inl (Wrapped ''user service GetUser call failed'' (DriverError m))
           | Inr u \<Rightarrow> Inr u)"

definition GetPetDetails :: "nenv \<Rightarrow> string \<Rightarrow> error + Pet option" where
  "GetPetDetails ne petID =
     (if petID = [] then Inl (ErrorNew ''pet ID cannot be empty'')
      else case grpc_GetPet ne petID of
             Inl m \<Rightarrow> Inl (Wrapped ''pet service GetPet call failed'' (DriverError m))
           | Inr p \<Rightarrow> Inr p)"

definition SendEmail :: "nenv \<Rightarrow> email \<Rightarrow> ncall list \<Rightarrow> error option \<times> ncall list" where
  "SendEmail ne m s =
     (case send_err ne of
        Some msg \<Rightarrow> (Some (DriverError msg), s @ [CallSendEmail m])
      | None \<Rightarrow> (None, s @ [CallSendEmail m]))"

definition nl :: string where
  "nl = [CHR 0x0A]"

definition indent :: string where
  "indent = [CHR 0x09, CHR 0x09]"

definition created_subject :: "string \<Rightarrow> string \<Rightarrow> string" where
  "created_subject petName applicationID =
     ''Adoption Application Received for '' @ petName @ '' (ID: '' @ applicationID @ '')''"

definition created_body :: "string \<Rightarrow> string \<Rightarrow> string \<Rightarrow> string \<Rightarrow> string \<Rightarrow> string" where
  "created_body fullName applicationID petName petID status =
     nl @ indent @ ''<h1>Adoption Application Received!</h1>'' @
     nl @ indent @ ''<p>Dear '' @ fullName @ '',</p>'' @
     nl @ indent @ ''<p>Thank you for submitting your adoption application (ID: '' @ applicationID @
       '') for <strong>'' @ petName @ ''</strong> (Pet ID: '' @ petID @ '').</p>'' @
     nl @ indent @ ''<p>Your application is currently in status: <strong>'' @ status @
       ''</strong>.</p>'' @
     nl @ indent @ ''<p>We will review your application and get back to you soon.</p>'' @
     nl @ indent @ ''<p>Thank you,<br/>The PetStore Team</p>'' @
     nl @ [CHR 0x09]"

definition updated_subject :: "string \<Rightarrow> string \<Rightarrow> string" where
  "updated_subject petName applicationID =
     ''Update on Your Adoption Application for '' @ petName @ '' (ID: '' @ applicationID @ '')''"

definition updated_body :: "string \<Rightarrow> string \<Rightarrow> string \<Rightarrow> string \<Rightarrow> string \<Rightarrow> string \<Rightarrow> string" where
  "updated_body fullName applicationID petName petID newStatus reviewNotes =
     (let body1 =
            nl @ indent @ ''<h1>Adoption Application Status Update!</h1>'' @
            nl @ indent @ ''<p>Dear '' @ fullName @ '',</p>'' @
            nl @ indent @ ''<p>There'' @ [CHR 0x27] @
              ''s an update on your adoption application (ID: '' @ applicationID @
              '') for <strong>'' @ petName @ ''</strong> (Pet ID: '' @ petID @ '').</p>'' @
            nl @ indent @ ''<p>Your application status is now: <strong>'' @ newStatus @
              ''</strong>.</p>'' @
            nl @ [CHR 0x09];
          body2 = (if reviewNotes \<noteq> []
                   then body1 @ ''<p>Reviewer'' @ [CHR 0x27] @ ''s Notes: '' @ reviewNotes @ ''</p>''
                   else body1);
          body3 = (if newStatus = ''APPROVED''
                   then body2 @ ''<p>Congratulations! Your application has been approved. We will contact you shortly with the next steps.</p>''
                   else if newStatus = ''REJECTED''
                   then body2 @ ''<p>We regret to inform you that your application was not approved at this time. Thank you for your interest.</p>''
                   else body2)
      in body3 @ ''<p>Thank you,<br/>The PetStore Team</p>'')"

definition HandleAdoptionApplicationCreated ::
    "nenv \<Rightarrow> AdoptionApplicationCreatedEvent \<Rightarrow> ncall list \<Rightarrow> error option \<times> ncall list" where
  "HandleAdoptionApplicationCreated ne event s =
     (let s1 = s @ [CallGetUserDetails (ev_UserID event)]
      in case GetUserDetails ne (ev_UserID event) of
           Inl err \<Rightarrow>
             (Some (Wrapped ''failed to fetch user details for created application'' err), s1)
         | Inr userDetails \<Rightarrow>
             if userDetails = None \<or> GetEmail userDetails = []
             then (Some (ErrorNew (''user email not found for UserID '' @ ev_UserID event)), s1)
             else
               let s2 = s1 @ [CallGetPetDetails (ev_PetID event)]
               in case GetPetDetails ne (ev_PetID event) of
                    Inl err \<Rightarrow>
                      (Some (Wrapped ''failed to fetch pet details for created application'' err),
                       s2)
                  | Inr petDetails \<Rightarrow>
                      if petDetails = None \<or> GetName petDetails = []
                      then (Some (ErrorNew (''pet details not found or name is empty for PetID '' @
                                            ev_PetID event)), s2)
                      else
                        let recipientEmail = GetEmail userDetails;
                            subject = created_subject (GetName petDetails) (ev_ApplicationID event);
                            body = created_body (GetFullName userDetails) (ev_ApplicationID event)
                                     (GetName petDetails) (ev_PetID event) (ev_Status event)
                        in case SendEmail ne \<lparr>mail_to = [recipientEmail], mail_subject = subject,
                                               mail_body = body, mail_isHTML = True\<rparr> s2 of
                             (Some err, s3) \<Rightarrow>
                               (Some (Wrapped ''failed to send application created email'' err), s3)
                           | (None, s3) \<Rightarrow> (None, s3))"

definition HandleAdoptionApplicationStatusUpdated ::
    "nenv \<Rightarrow> AdoptionApplicationStatusUpdatedEvent \<Rightarrow> ncall list \<Rightarrow>
     error option \<times> ncall list" where
  "HandleAdoptionApplicationStatusUpdated ne event s =
     (let s1 = s @ [CallGetUserDetails (su_UserID event)]
      in case GetUserDetails ne (su_UserID event) of
           Inl err \<Rightarrow> (Some (Wrapped ''failed to fetch user details for status update'' err), s1)
         | Inr userDetails \<Rightarrow>
             if userDetails = None \<or> GetEmail userDetails = []
             then (Some (ErrorNew (''user email not found for UserID '' @ su_UserID event)), s1)
             else
               let s2 = s1 @ [CallGetPetDetails (su_PetID event)]
               in case GetPetDetails ne (su_PetID event) of
                    Inl err \<Rightarrow>
                      (Some (Wrapped ''failed to fetch pet details for status update'' err), s2)
                  | Inr petDetails \<Rightarrow>
                      if petDetails = None \<or> GetName petDetails = []
                      then (Some (ErrorNew (''pet details not found or name is empty for PetID '' @
                                            su_PetID event)), s2)
                      else
                        let recipientEmail = GetEmail userDetails;
                            subject = updated_subject (GetName petDetails) (su_ApplicationID event);
                            body = updated_body (GetFullName userDetails) (su_ApplicationID event)
                                     (GetName petDetails) (su_PetID event) (su_NewStatus event)
                                     (su_ReviewNotes event)
                        in case SendEmail ne \<lparr>mail_to = [recipientEmail], mail_subject = subject,
                                               mail_body = body, mail_isHTML = True\<rparr> s2 of
                             (Some err, s3) \<Rightarrow>
                               (Some (Wrapped ''failed to send status update email'' err), s3)
                           | (None, s3) \<Rightarrow> (None, s3))"

section \<open>NATS consumer: shutdown\<close>

text \<open>
  \<open>Close\<close> runs its statements in program order. The model returns the steps it
  issues on the stop channel, the subscriptions, the connection and the wait group,
  each paired with the status of the connection once the step has returned. Closing
  an already closed channel panics (\<open>None\<close>). \<open>Drain\<close> is issued only on a non-nil
  connection that is not closed; it is the call that releases the connection (the
  source leaves out \<open>nc.Close()\<close> because "Drain will close the connection"), so the
  connection is closed from that step on. Errors of \<open>Unsubscribe\<close> and \<open>Drain\<close>
  are only logged.
\<close>

datatype conn_status = CONNECTED | DRAINING | CLOSED









section \<open>Observations on the recorded calls and the store\<close>

fun is_publish_attempt :: "call \<Rightarrow> bool" where
  "is_publish_attempt (PublishCreated a) = True"
| "is_publish_attempt (PublishStatusUpdated a) = True"
| "is_publish_attempt c = False"

fun is_nats_publish :: "call \<Rightarrow> bool" where
  "is_nats_publish (NatsPublish s p) = True"
| "is_nats_publish c = False"

fun is_cache_delete :: "call \<Rightarrow> bool" where
  "is_cache_delete (CacheDelete i) = True"
| "is_cache_delete c = False"

fun is_send_email :: "ncall \<Rightarrow> bool" where
  "is_send_email (CallSendEmail m) = True"
| "is_send_email c = False"

definition publish_attempts :: "call list \<Rightarrow> call list" where
  "publish_attempts cs = filter is_publish_attempt cs"

definition nats_publishes :: "call list \<Rightarrow> call list" where
  "nats_publishes cs = filter is_nats_publish cs"

definition cache_deletes :: "call list \<Rightarrow> call list" where
  "cache_deletes cs = filter is_cache_delete cs"

definition emails_sent :: "ncall list \<Rightarrow> ncall list" where
  "emails_sent s = filter is_send_email s"

definition stored :: "world \<Rightarrow> string \<Rightarrow> AdoptionApplication option" where
  "stored w i = find (\<lambda>d. ID d = i) (collection w)"

definition cached :: "world \<Rightarrow> string \<Rightarrow> (AdoptionApplication \<times> Duration) option" where
  "cached w i = map_of (redis w) (appKey w i)"

section \<open>Concrete inputs\<close>

definition env_ok :: env where
  "env_ok = \<lparr>now = 2000, new_object_id = ''665f1c2e9b3e4a0012345678'',
     insert_err = None, update_err = None, find_err = None,
     redis_get_err = None, redis_set_err = None, redis_del_err = None,
     marshal_err = None, publish_err = None\<rparr>"

definition env_publish_fails :: env where
  "env_publish_fails = env_ok\<lparr>publish_err := Some ''nats: connection closed''\<rparr>"

definition env_cache_down :: env where
  "env_cache_down = env_ok\<lparr>redis_get_err := Some ''dial tcp: connection refused'',
     redis_set_err := Some ''dial tcp: connection refused''\<rparr>"

definition app_one :: AdoptionApplication where
  "app_one = \<lparr>ID = ''a1'', UserID = ''user123'', PetID = ''pet456'',
     Status = ''PENDING_REVIEW'', ApplicationNotes = ''please'',
     ReviewNotes = ''first look'', CreatedAt = 1000, UpdatedAt = 1000\<rparr>"

definition world_empty :: world where
  "world_empty = \<lparr>collection = [], prefix = ''adoptionapp:'', redis = [], bus = [], calls = []\<rparr>"

definition world_one :: world where
  "world_one = world_empty\<lparr>collection := [app_one]\<rparr>"

definition world_cached :: world where
  "world_cached = world_one\<lparr>redis := [(''adoptionapp:a1'', app_one, 3600000000000)]\<rparr>"

definition req_create :: CreateAdoptionApplicationRequestData where
  "req_create = \<lparr>req_UserID = ''user123'', req_PetID = ''pet456'',
     req_ApplicationNotes = ''please''\<rparr>"

definition req_approve :: UpdateAdoptionApplicationStatusRequestData where
  "req_approve = \<lparr>req_NewStatus = ''APPROVED'', req_ReviewNotes = ''looks good''\<rparr>"

definition req_reject_no_notes :: UpdateAdoptionApplicationStatusRequestData where
  "req_reject_no_notes = \<lparr>req_NewStatus = ''REJECTED'', req_ReviewNotes = []\<rparr>"

definition req_unspecified :: UpdateAdoptionApplicationStatusRequestData where
  "req_unspecified = \<lparr>req_NewStatus = ''UNSPECIFIED'', req_ReviewNotes = []\<rparr>"

definition nenv_ok :: nenv where
  "nenv_ok = \<lparr>
     grpc_GetUser = (\<lambda>i. if i = ''user123''
        then Inr (Some \<lparr>user_Id = ''user123'', user_Email = ''testuser@example.com'',
                         user_FullName = ''Test User''\<rparr>)
        else Inl ''user not found''),
     grpc_GetPet = (\<lambda>i. if i = ''pet456''
        then Inr (Some \<lparr>pet_Id = ''pet456'', pet_Name = ''Buddy''\<rparr>)
        else Inl ''pet not found''),
     send_err = None\<rparr>"

definition event_created :: AdoptionApplicationCreatedEvent where
  "event_created = \<lparr>ev_EventType = ''AdoptionApplicationCreated'', ev_ApplicationID = ''app789'',
     ev_UserID = ''user123'', ev_PetID = ''pet456'', ev_Status = ''PENDING_REVIEW'',
     ev_AppliedAt = 1000\<rparr>"

definition event_updated :: AdoptionApplicationStatusUpdatedEvent where
  "event_updated = \<lparr>su_EventType = ''AdoptionApplicationStatusUpdated'',
     su_ApplicationID = ''app789'', su_UserID = ''user123'', su_PetID = ''pet456'',
     su_NewStatus = ''APPROVED'', su_UpdatedAt = 2000, su_ReviewNotes = ''looks good''\<rparr>"


definition created_app :: AdoptionApplication where
  "created_app = \<lparr>ID = ''665f1c2e9b3e4a0012345678'', UserID = ''user123'', PetID = ''pet456'',
     Status = ''PENDING_REVIEW'', ApplicationNotes = ''please'', ReviewNotes = [],
     CreatedAt = 2000, UpdatedAt = 2000\<rparr>"

definition approved_app :: AdoptionApplication where
  "approved_app = app_one\<lparr>Status := ''APPROVED'', ReviewNotes := ''looks good'',
     UpdatedAt := 2000\<rparr>"

definition unspecified_app :: AdoptionApplication where
  "unspecified_app = app_one\<lparr>Status := ''UNSPECIFIED'', ReviewNotes := [], UpdatedAt := 2000\<rparr>"

definition app_preapproved :: AdoptionApplication where
  "app_preapproved = \<lparr>ID = [], UserID = ''user123'', PetID = ''pet456'',
     Status = ''APPROVED'', ApplicationNotes = [], ReviewNotes = [],
     CreatedAt = 0, UpdatedAt = 0\<rparr>"

definition req_adopted :: UpdateAdoptionApplicationStatusRequestData where
  "req_adopted = \<lparr>req_NewStatus = ''ADOPTED'', req_ReviewNotes = []\<rparr>"

definition rpc_unspecified :: UpdateAdoptionApplicationStatusRequest where
  "rpc_unspecified = \<lparr>rq_ApplicationId = ''a1'', rq_NewStatus = 0, rq_ReviewNotes = []\<rparr>"

definition rpc_unknown :: UpdateAdoptionApplicationStatusRequest where
  "rpc_unknown = \<lparr>rq_ApplicationId = ''a1'', rq_NewStatus = 4, rq_ReviewNotes = []\<rparr>"

definition rejected_app :: AdoptionApplication where
  "rejected_app = app_one\<lparr>Status := ''REJECTED'', ReviewNotes := [], UpdatedAt := 2000\<rparr>"

definition nenv_user_down :: nenv where
  "nenv_user_down = nenv_ok\<lparr>grpc_GetUser := (\<lambda>i. Inl ''simulated user service error'')\<rparr>"

definition user_one :: User where
  "user_one = \<lparr>user_Id = ''user123'', user_Email = ''testuser@example.com'',
     user_FullName = ''Test User''\<rparr>"

definition pet_one :: Pet where
  "pet_one = \<lparr>pet_Id = ''pet456'', pet_Name = ''Buddy''\<rparr>"


definition rpc_missing :: UpdateAdoptionApplicationStatusRequest where
  "rpc_missing = \<lparr>rq_ApplicationId = ''zz'', rq_NewStatus = 2, rq_ReviewNotes = ''looks good''\<rparr>"

definition request_app :: AdoptionApplication where
  "request_app = \<lparr>ID = [], UserID = ''user123'', PetID = ''pet456'', Status = [],
     ApplicationNotes = ''please'', ReviewNotes = [], CreatedAt = 0, UpdatedAt = 0\<rparr>"

section \<open>Auxiliary facts\<close>

lemma find_append_new:
  "\<forall>d \<in> set ds. ID d \<noteq> ID a \<Longrightarrow> find (\<lambda>d. ID d = ID a) (ds @ [a]) = Some a"
  by (induction ds) auto

lemma find_set_first:
  assumes "\<And>d. ID (f d) = ID d"
  shows "find (\<lambda>d. ID d = j) (set_first i f ds) =
         map_option (\<lambda>d. if j = i then f d else d) (find (\<lambda>d. ID d = j) ds)"
  using assms by (induction ds) (auto simp: option.map_ident)

lemma set_first_no_match:
  "\<forall>d \<in> set ds. ID d \<noteq> i \<Longrightarrow> set_first i f ds = ds"
  by (induction ds) auto

lemma PrepareForCreate_ID: "ID (PrepareForCreate t a) = ID a"
  by (simp add: PrepareForCreate_def Let_def)

lemma PrepareForCreate_times:
  "CreatedAt (PrepareForCreate t a) = t \<and> UpdatedAt (PrepareForCreate t a) = t"
  by (simp add: PrepareForCreate_def Let_def)

lemma PrepareForCreate_Status:
  "Status (PrepareForCreate t a) =
     (if Status a = [] \<or> Status a = StatusAppUnspecified then StatusAppPendingReview
      else Status a)"
  by (simp add: PrepareForCreate_def Let_def)

lemma repo_Create_Inr:
  assumes "repo_CreateAdoptionApplication e app w = (Inr app', w')"
  shows "app' = PrepareForCreate (now e) (if ID app = [] then app\<lparr>ID := new_object_id e\<rparr> else app)
       \<and> insert_err e = None
       \<and> (\<forall>d \<in> set (collection w). ID d \<noteq> ID app')
       \<and> w' = (record_call (RepoCreate app) w)\<lparr>collection := collection w @ [app']\<rparr>"
  using assms
  by (auto simp: repo_CreateAdoptionApplication_def InsertOne_def Let_def record_call_def
      PrepareForCreate_ID split: option.splits if_splits)

lemma publish_created_effect:
  assumes "PublishAdoptionApplicationCreated e app w = (r, w')"
  shows "collection w' = collection w \<and> redis w' = redis w \<and> prefix w' = prefix w \<and>
     calls w' = calls w @ PublishCreated app #
       (if marshal_err e = None
        then [NatsPublish ''adoption.application.created'' (created_eventData app)] else [])"
  using assms
  by (auto simp: PublishAdoptionApplicationCreated_def marshal_and_publish_def record_call_def
      Let_def split: option.splits)

lemma publish_updated_effect:
  assumes "PublishAdoptionApplicationStatusUpdated e app w = (r, w')"
  shows "collection w' = collection w \<and> redis w' = redis w \<and> prefix w' = prefix w \<and>
     calls w' = calls w @ PublishStatusUpdated app #
       (if marshal_err e = None
        then [NatsPublish ''adoption.application.status.updated'' (status_updated_eventData app)]
        else [])"
  using assms
  by (auto simp: PublishAdoptionApplicationStatusUpdated_def marshal_and_publish_def
      record_call_def Let_def split: option.splits)

lemma cache_delete_effect:
  assumes "cache_DeleteAdoptionApplication e i w = (r, w')"
  shows "collection w' = collection w \<and> bus w' = bus w \<and> calls w' = calls w @ [CacheDelete i]"
  using assms
  by (auto simp: cache_DeleteAdoptionApplication_def record_call_def Let_def split: option.splits)

lemma uc_Create_Inr:
  assumes "uc_CreateAdoptionApplication e reqData w = (Inr app, w')"
  shows "req_UserID reqData \<noteq> [] \<and> req_PetID reqData \<noteq> [] \<and>
    (\<exists>w1. repo_CreateAdoptionApplication e
        \<lparr>ID = [], UserID = req_UserID reqData, PetID = req_PetID reqData,
         Status = [], ApplicationNotes = req_ApplicationNotes reqData,
         ReviewNotes = [], CreatedAt = 0, UpdatedAt = 0\<rparr> w = (Inr app, w1) \<and>
       w' = snd (PublishAdoptionApplicationCreated e app w1))"
  using assms
  by (auto simp: uc_CreateAdoptionApplication_def Let_def split: prod.splits sum.splits if_splits)

lemma uc_Update_Inr:
  assumes "uc_UpdateAdoptionApplicationStatus e i r w = (Inr app, w')"
  shows "i \<noteq> [] \<and> IsValidApplicationStatus (req_NewStatus r) \<and>
    (\<exists>w1. repo_UpdateAdoptionApplicationStatus e i (req_NewStatus r) (req_ReviewNotes r) w
             = (Inr app, w1) \<and>
       w' = snd (PublishAdoptionApplicationStatusUpdated e app
                   (snd (cache_DeleteAdoptionApplication e i w1))))"
  using assms
  by (auto simp: uc_UpdateAdoptionApplicationStatus_def Let_def
      split: prod.splits sum.splits if_splits)

lemma repo_Update_Inr:
  assumes "repo_UpdateAdoptionApplicationStatus e i s n w = (Inr app, w1)"
  shows "update_err e = None \<and> find_err e = None \<and>
     w1 = (record_call (RepoUpdateStatus i s n) w)\<lparr>collection :=
            set_first i (\<lambda>d. d\<lparr>Status := s, ReviewNotes := n, UpdatedAt := now e\<rparr>) (collection w)\<rparr> \<and>
     find (\<lambda>d. ID d = i) (collection w1) = Some app"
  using assms
  by (auto simp: repo_UpdateAdoptionApplicationStatus_def UpdateOne_def find_by_id_def
      FindOne_def Let_def record_call_def split: option.splits if_splits sum.splits)

lemma uc_Create_stored:
  assumes a: "uc_CreateAdoptionApplication e reqData w = (Inr app, w')"
  shows "stored w' (ID app) = Some app \<and> Status app = StatusAppPendingReview \<and>
         CreatedAt app = now e \<and> UpdatedAt app = now e"
proof -
  from uc_Create_Inr[OF a] obtain w1 a0 where
    a0: "a0 = \<lparr>ID = [], UserID = req_UserID reqData, PetID = req_PetID reqData,
         Status = [], ApplicationNotes = req_ApplicationNotes reqData,
         ReviewNotes = [], CreatedAt = 0, UpdatedAt = 0\<rparr>"
    and r: "repo_CreateAdoptionApplication e a0 w = (Inr app, w1)"
    and p: "w' = snd (PublishAdoptionApplicationCreated e app w1)" by blast
  note R = repo_Create_Inr[OF r]
  have c: "collection w' = collection w1"
    using p publish_created_effect[of e app w1 "fst (PublishAdoptionApplicationCreated e app w1)" w']
    by simp
  have nd: "\<forall>d \<in> set (collection w). ID d \<noteq> ID app" using R by blast
  have "collection w1 = collection w @ [app]"
    using R by (simp add: record_call_def)
  then have "stored w' (ID app) = Some app"
    using c find_append_new[OF nd] by (simp add: stored_def)
  moreover have "Status app = StatusAppPendingReview"
    using R a0 by (simp add: PrepareForCreate_Status)
  moreover have "CreatedAt app = now e \<and> UpdatedAt app = now e"
    using R by (simp add: PrepareForCreate_times)
  ultimately show ?thesis by simp
qed


section \<open>Adoption service: creation, publishing and the not-found path\<close>

lemmas status_defs = StatusAppUnspecified_def StatusAppPendingReview_def StatusAppApproved_def
  StatusAppRejected_def StatusAppCancelledByUser_def

lemmas model_defs = uc_CreateAdoptionApplication_def uc_GetAdoptionApplicationByID_def
  uc_UpdateAdoptionApplicationStatus_def repo_CreateAdoptionApplication_def
  repo_GetAdoptionApplicationByID_def repo_UpdateAdoptionApplicationStatus_def
  InsertOne_def FindOne_def UpdateOne_def MatchedCount_def find_by_id_def
  cache_GetAdoptionApplication_def cache_SetAdoptionApplication_def
  cache_DeleteAdoptionApplication_def appKey_def PublishAdoptionApplicationCreated_def
  PublishAdoptionApplicationStatusUpdated_def marshal_and_publish_def record_call_def
  PrepareForCreate_def IsValidApplicationStatus_def created_eventData_def
  status_updated_eventData_def stored_def cached_def Let_def

lemmas input_defs = env_ok_def env_publish_fails_def env_cache_down_def app_one_def
  world_empty_def world_one_def world_cached_def req_create_def req_approve_def
  req_reject_no_notes_def req_unspecified_def created_app_def approved_app_def
  unspecified_app_def app_preapproved_def

lemma pair_of_fst: "fst p = a \<Longrightarrow> p = (a, snd p)"
  by (cases p) simp

text \<open>
  C4. For every request with non-empty user id and non-empty pet id, a successful
  \<open>CreateAdoptionApplication\<close> returns an application whose status is
  \<open>PENDING_REVIEW\<close> and whose \<open>created_at\<close> equals its \<open>updated_at\<close>; this
  application is also the document stored under its id.
\<close>

theorem create_pending_review_equal_timestamps:
  assumes "req_UserID reqData \<noteq> []" and "req_PetID reqData \<noteq> []"
    and "uc_CreateAdoptionApplication e reqData w = (Inr app, w')"
  shows "Status app = StatusAppPendingReview \<and> CreatedAt app = UpdatedAt app \<and>
         stored w' (ID app) = Some app"
  using uc_Create_stored[OF assms(3)] by simp

theorem create_pending_review_equal_timestamps_witness:
  "req_UserID req_create \<noteq> [] \<and> req_PetID req_create \<noteq> [] \<and>
   fst (uc_CreateAdoptionApplication env_ok req_create world_empty) = Inr created_app \<and>
   Status created_app = StatusAppPendingReview \<and>
   CreatedAt created_app = UpdatedAt created_app \<and>
   stored (snd (uc_CreateAdoptionApplication env_ok req_create world_empty)) (ID created_app)
     = Some created_app"
proof -
  have h1: "req_UserID req_create \<noteq> []" and h2: "req_PetID req_create \<noteq> []"
    by (simp_all add: req_create_def)
  have f: "fst (uc_CreateAdoptionApplication env_ok req_create world_empty) = Inr created_app"
    by (simp add: model_defs input_defs status_defs)
  from create_pending_review_equal_timestamps[OF h1 h2 pair_of_fst[OF f]] h1 h2 f
  show ?thesis by simp
qed

text \<open>
  C10. At the repository layer \<open>CreateAdoptionApplication\<close> keeps a caller-supplied
  status: the status is replaced by \<open>PENDING_REVIEW\<close> only when it is empty or
  \<open>UNSPECIFIED\<close>, and any other status is returned and stored unchanged. That a
  created application is always \<open>PENDING_REVIEW\<close> comes from the use case: for every
  request with user id and pet id it calls the repository exactly once, with an
  application it built without a status.
\<close>

theorem repo_create_keeps_supplied_status:
  "(repo_CreateAdoptionApplication e app w = (Inr app', w') \<longrightarrow>
      Status app' = (if Status app = [] \<or> Status app = StatusAppUnspecified
                     then StatusAppPendingReview else Status app) \<and>
      stored w' (ID app') = Some app') \<and>
   (req_UserID reqData \<noteq> [] \<and> req_PetID reqData \<noteq> [] \<longrightarrow>
      (\<exists>cs. calls (snd (uc_CreateAdoptionApplication e reqData w))
               = calls w @
                 RepoCreate \<lparr>ID = [], UserID = req_UserID reqData, PetID = req_PetID reqData,
                             Status = [], ApplicationNotes = req_ApplicationNotes reqData,
                             ReviewNotes = [], CreatedAt = 0, UpdatedAt = 0\<rparr> # cs \<and>
             (\<forall>a. RepoCreate a \<notin> set cs))) \<and>
   (uc_CreateAdoptionApplication e reqData w = (Inr created, w'') \<longrightarrow>
      Status created = StatusAppPendingReview)"
proof (intro conjI impI)
  assume r: "repo_CreateAdoptionApplication e app w = (Inr app', w')"
  note R = repo_Create_Inr[OF r]
  have nd: "\<forall>d \<in> set (collection w). ID d \<noteq> ID app'" using R by blast
  have "collection w' = collection w @ [app']" using R by (simp add: record_call_def)
  then show "stored w' (ID app') = Some app'"
    using find_append_new[OF nd] by (simp add: stored_def)
  show "Status app' = (if Status app = [] \<or> Status app = StatusAppUnspecified
                     then StatusAppPendingReview else Status app)"
    using R by (simp add: PrepareForCreate_Status)
next
  assume "req_UserID reqData \<noteq> [] \<and> req_PetID reqData \<noteq> []"
  then show "\<exists>cs. calls (snd (uc_CreateAdoptionApplication e reqData w))
               = calls w @
                 RepoCreate \<lparr>ID = [], UserID = req_UserID reqData, PetID = req_PetID reqData,
                             Status = [], ApplicationNotes = req_ApplicationNotes reqData,
                             ReviewNotes = [], CreatedAt = 0, UpdatedAt = 0\<rparr> # cs \<and>
             (\<forall>a. RepoCreate a \<notin> set cs)"
    by (auto simp: uc_CreateAdoptionApplication_def repo_CreateAdoptionApplication_def
        InsertOne_def PublishAdoptionApplicationCreated_def marshal_and_publish_def
        record_call_def Let_def split: option.splits)
next
  assume "uc_CreateAdoptionApplication e reqData w = (Inr created, w'')"
  from uc_Create_stored[OF this] show "Status created = StatusAppPendingReview" by blast
qed

theorem repo_create_keeps_supplied_status_witness:
  "fst (repo_CreateAdoptionApplication env_ok app_preapproved world_empty)
     = Inr (app_preapproved\<lparr>ID := ''665f1c2e9b3e4a0012345678'', CreatedAt := 2000,
                             UpdatedAt := 2000\<rparr>) \<and>
   Status (app_preapproved\<lparr>ID := ''665f1c2e9b3e4a0012345678'', CreatedAt := 2000,
                             UpdatedAt := 2000\<rparr>) = StatusAppApproved \<and>
   hd (calls (snd (uc_CreateAdoptionApplication env_ok req_create world_empty)))
     = RepoCreate request_app \<and>
   Status request_app = [] \<and>
   fst (uc_CreateAdoptionApplication env_ok req_create world_empty) = Inr created_app \<and>
   Status created_app = StatusAppPendingReview"
proof -
  let ?a = "app_preapproved\<lparr>ID := ''665f1c2e9b3e4a0012345678'', CreatedAt := 2000,
                             UpdatedAt := 2000\<rparr>"
  let ?c = "uc_CreateAdoptionApplication env_ok req_create world_empty"
  have f: "fst (repo_CreateAdoptionApplication env_ok app_preapproved world_empty) = Inr ?a"
    by (simp add: model_defs input_defs status_defs)
  have s: "Status app_preapproved = StatusAppApproved" "Status app_preapproved \<noteq> []"
    "Status app_preapproved \<noteq> StatusAppUnspecified"
    by (simp_all add: app_preapproved_def status_defs)
  have q: "req_UserID req_create \<noteq> [] \<and> req_PetID req_create \<noteq> []"
    by (simp add: req_create_def)
  have g: "fst ?c = Inr created_app"
    by (simp add: model_defs input_defs status_defs)
  have ra: "\<lparr>ID = [], UserID = req_UserID req_create, PetID = req_PetID req_create,
             Status = [], ApplicationNotes = req_ApplicationNotes req_create,
             ReviewNotes = [], CreatedAt = 0, UpdatedAt = 0\<rparr> = request_app"
    "Status request_app = []" "calls world_empty = []"
    by (simp_all add: request_app_def req_create_def world_empty_def)
  note T = repo_create_keeps_supplied_status[where e = env_ok and app = app_preapproved
      and w = world_empty and app' = ?a
      and w' = "snd (repo_CreateAdoptionApplication env_ok app_preapproved world_empty)"
      and reqData = req_create and created = created_app and w'' = "snd ?c"]
  from T[THEN conjunct1] pair_of_fst[OF f] s
  have 1: "Status ?a = StatusAppApproved" by simp
  from T[THEN conjunct2, THEN conjunct1, rule_format, OF q] ra
  have 2: "hd (calls (snd ?c)) = RepoCreate request_app" by auto
  from T[THEN conjunct2, THEN conjunct2, rule_format, OF pair_of_fst[OF g]]
  have 3: "Status created_app = StatusAppPendingReview" .
  from f 1 2 ra(2) g 3 show ?thesis by simp
qed

text \<open>
  C7. If the event publish fails after the store write has succeeded,
  \<open>CreateAdoptionApplication\<close> and \<open>UpdateAdoptionApplicationStatus\<close> still return the
  created, respectively updated, application and no error.
\<close>

theorem publish_failure_keeps_mutation_result:
  "(req_UserID reqData \<noteq> [] \<and> req_PetID reqData \<noteq> [] \<and>
    repo_CreateAdoptionApplication e
      \<lparr>ID = [], UserID = req_UserID reqData, PetID = req_PetID reqData, Status = [],
       ApplicationNotes = req_ApplicationNotes reqData, ReviewNotes = [],
       CreatedAt = 0, UpdatedAt = 0\<rparr> w = (Inr created, w1) \<and>
    fst (PublishAdoptionApplicationCreated e created w1) = Some perr
    \<longrightarrow> fst (uc_CreateAdoptionApplication e reqData w) = Inr created \<and>
        stored (snd (uc_CreateAdoptionApplication e reqData w)) (ID created) = Some created)
   \<and>
   (i \<noteq> [] \<and> IsValidApplicationStatus (req_NewStatus r) \<and>
    repo_UpdateAdoptionApplicationStatus e i (req_NewStatus r) (req_ReviewNotes r) w
      = (Inr updated, w2) \<and>
    fst (PublishAdoptionApplicationStatusUpdated e updated
           (snd (cache_DeleteAdoptionApplication e i w2))) = Some perr'
    \<longrightarrow> fst (uc_UpdateAdoptionApplicationStatus e i r w) = Inr updated \<and>
        stored (snd (uc_UpdateAdoptionApplicationStatus e i r w)) i = Some updated)"
proof (intro conjI impI)
  assume a: "req_UserID reqData \<noteq> [] \<and> req_PetID reqData \<noteq> [] \<and>
    repo_CreateAdoptionApplication e
      \<lparr>ID = [], UserID = req_UserID reqData, PetID = req_PetID reqData, Status = [],
       ApplicationNotes = req_ApplicationNotes reqData, ReviewNotes = [],
       CreatedAt = 0, UpdatedAt = 0\<rparr> w = (Inr created, w1) \<and>
    fst (PublishAdoptionApplicationCreated e created w1) = Some perr"
  then have f: "fst (uc_CreateAdoptionApplication e reqData w) = Inr created"
    by (simp add: uc_CreateAdoptionApplication_def Let_def split: prod.splits)
  then show "fst (uc_CreateAdoptionApplication e reqData w) = Inr created" .
  show "stored (snd (uc_CreateAdoptionApplication e reqData w)) (ID created) = Some created"
    using uc_Create_stored[OF pair_of_fst[OF f]] by simp
next
  assume a: "i \<noteq> [] \<and> IsValidApplicationStatus (req_NewStatus r) \<and>
    repo_UpdateAdoptionApplicationStatus e i (req_NewStatus r) (req_ReviewNotes r) w
      = (Inr updated, w2) \<and>
    fst (PublishAdoptionApplicationStatusUpdated e updated
           (snd (cache_DeleteAdoptionApplication e i w2))) = Some perr'"
  then have f: "fst (uc_UpdateAdoptionApplicationStatus e i r w) = Inr updated"
    by (simp add: uc_UpdateAdoptionApplicationStatus_def Let_def split: prod.splits)
  then show "fst (uc_UpdateAdoptionApplicationStatus e i r w) = Inr updated" .
  from a have r: "repo_UpdateAdoptionApplicationStatus e i (req_NewStatus r) (req_ReviewNotes r) w
      = (Inr updated, w2)" by simp
  have f2: "find (\<lambda>d. ID d = i) (collection w2) = Some updated"
    using repo_Update_Inr[OF r] by blast
  let ?w3 = "snd (cache_DeleteAdoptionApplication e i w2)"
  have c3: "collection ?w3 = collection w2"
    using cache_delete_effect[of e i w2 "fst (cache_DeleteAdoptionApplication e i w2)" ?w3]
    by simp
  have s: "snd (uc_UpdateAdoptionApplicationStatus e i r w)
             = snd (PublishAdoptionApplicationStatusUpdated e updated ?w3)"
    using a by (simp add: uc_UpdateAdoptionApplicationStatus_def Let_def split: prod.splits)
  have c4: "collection (snd (PublishAdoptionApplicationStatusUpdated e updated ?w3))
              = collection ?w3"
    using publish_updated_effect[of e updated ?w3
        "fst (PublishAdoptionApplicationStatusUpdated e updated ?w3)"
        "snd (PublishAdoptionApplicationStatusUpdated e updated ?w3)"] by simp
  show "stored (snd (uc_UpdateAdoptionApplicationStatus e i r w)) i = Some updated"
    using s c3 c4 f2 by (simp add: stored_def)
qed

theorem publish_failure_keeps_mutation_result_witness:
  "fst (PublishAdoptionApplicationCreated env_publish_fails created_app world_empty)
     = Some (DriverError ''nats: connection closed'') \<and>
   fst (uc_CreateAdoptionApplication env_publish_fails req_create world_empty) = Inr created_app \<and>
   fst (uc_UpdateAdoptionApplicationStatus env_publish_fails ''a1'' req_approve world_one)
     = Inr approved_app"
proof -
  let ?e = env_publish_fails
  let ?a0 = "\<lparr>ID = [], UserID = req_UserID req_create, PetID = req_PetID req_create,
       Status = [], ApplicationNotes = req_ApplicationNotes req_create, ReviewNotes = [],
       CreatedAt = 0, UpdatedAt = 0\<rparr>"
  let ?w1 = "snd (repo_CreateAdoptionApplication ?e ?a0 world_empty)"
  let ?w2 = "snd (repo_UpdateAdoptionApplicationStatus ?e ''a1'' (req_NewStatus req_approve)
                    (req_ReviewNotes req_approve) world_one)"
  have p0: "fst (PublishAdoptionApplicationCreated ?e created_app world_empty)
     = Some (DriverError ''nats: connection closed'')"
    by (simp add: model_defs input_defs)
  have c1: "req_UserID req_create \<noteq> [] \<and> req_PetID req_create \<noteq> []"
    by (simp add: req_create_def)
  have c2: "repo_CreateAdoptionApplication ?e ?a0 world_empty = (Inr created_app, ?w1)"
    by (rule pair_of_fst) (simp add: model_defs input_defs status_defs)
  have c3: "fst (PublishAdoptionApplicationCreated ?e created_app ?w1)
              = Some (DriverError ''nats: connection closed'')"
    by (simp add: model_defs input_defs)
  have u1: "''a1'' \<noteq> [] \<and> IsValidApplicationStatus (req_NewStatus req_approve)"
    by (simp add: model_defs input_defs status_defs)
  have u2: "repo_UpdateAdoptionApplicationStatus ?e ''a1'' (req_NewStatus req_approve)
              (req_ReviewNotes req_approve) world_one = (Inr approved_app, ?w2)"
    by (rule pair_of_fst) (simp add: model_defs input_defs status_defs)
  have u3: "fst (PublishAdoptionApplicationStatusUpdated ?e approved_app
              (snd (cache_DeleteAdoptionApplication ?e ''a1'' ?w2)))
            = Some (DriverError ''nats: connection closed'')"
    by (simp add: model_defs input_defs)
  from publish_failure_keeps_mutation_result[where reqData = req_create and e = ?e
      and w = world_empty and created = created_app and ?w1.0 = ?w1
      and perr = "DriverError ''nats: connection closed''"]
    publish_failure_keeps_mutation_result[where i = "''a1''" and r = req_approve and e = ?e
      and w = world_one and updated = approved_app and ?w2.0 = ?w2
      and perr' = "DriverError ''nats: connection closed''"]
    p0 c1 c2 c3 u1 u2 u3
  show ?thesis by simp
qed

text \<open>
  C1. For every successful \<open>CreateAdoptionApplication\<close> call and every successful
  \<open>UpdateAdoptionApplicationStatus\<close> call, exactly one publish attempt is made (a call of
  \<open>PublishAdoptionApplicationCreated\<close>, respectively
  \<open>PublishAdoptionApplicationStatusUpdated\<close>), for the application that was stored; the
  \<open>application_id\<close> member of its event data is the id of that application. The count
  is one whatever the outcome of the publish: at most one message is handed to the
  NATS connection, and it is that event data.
\<close>

theorem one_publish_attempt_per_successful_mutation:
  "(uc_CreateAdoptionApplication e reqData w = (Inr app, w') \<longrightarrow>
      (\<exists>cs. calls w' = calls w @ cs \<and>
         publish_attempts cs = [PublishCreated app] \<and>
         stored w' (ID app) = Some app \<and>
         json_field (created_eventData app) ''application_id'' = Some (JString (ID app)) \<and>
         nats_publishes cs =
           (if marshal_err e = None
            then [NatsPublish ''adoption.application.created'' (created_eventData app)] else [])))
   \<and>
   (uc_UpdateAdoptionApplicationStatus e i r w = (Inr app, w') \<longrightarrow>
      (\<exists>cs. calls w' = calls w @ cs \<and>
         publish_attempts cs = [PublishStatusUpdated app] \<and>
         ID app = i \<and> stored w' i = Some app \<and>
         json_field (status_updated_eventData app) ''application_id'' = Some (JString (ID app)) \<and>
         nats_publishes cs =
           (if marshal_err e = None
            then [NatsPublish ''adoption.application.status.updated''
                    (status_updated_eventData app)] else [])))"
proof (intro conjI impI)
  assume a: "uc_CreateAdoptionApplication e reqData w = (Inr app, w')"
  from uc_Create_Inr[OF a] obtain w1 a0 where
    r: "repo_CreateAdoptionApplication e a0 w = (Inr app, w1)"
    and p: "w' = snd (PublishAdoptionApplicationCreated e app w1)" by blast
  from repo_Create_Inr[OF r] have c1: "calls w1 = calls w @ [RepoCreate a0]"
    by (simp add: record_call_def)
  have pe: "PublishAdoptionApplicationCreated e app w1
              = (fst (PublishAdoptionApplicationCreated e app w1), w')"
    using p by simp
  note P = publish_created_effect[OF pe]
  let ?cs = "RepoCreate a0 # PublishCreated app #
       (if marshal_err e = None
        then [NatsPublish ''adoption.application.created'' (created_eventData app)] else [])"
  have "calls w' = calls w @ ?cs" using P c1 by simp
  moreover have "publish_attempts ?cs = [PublishCreated app]"
    by (simp add: publish_attempts_def)
  moreover have "nats_publishes ?cs = (if marshal_err e = None
        then [NatsPublish ''adoption.application.created'' (created_eventData app)] else [])"
    by (simp add: nats_publishes_def)
  moreover have "stored w' (ID app) = Some app"
    using uc_Create_stored[OF a] by blast
  moreover have "json_field (created_eventData app) ''application_id'' = Some (JString (ID app))"
    by (simp add: json_field_def created_eventData_def)
  ultimately show "\<exists>cs. calls w' = calls w @ cs \<and>
         publish_attempts cs = [PublishCreated app] \<and>
         stored w' (ID app) = Some app \<and>
         json_field (created_eventData app) ''application_id'' = Some (JString (ID app)) \<and>
         nats_publishes cs =
           (if marshal_err e = None
            then [NatsPublish ''adoption.application.created'' (created_eventData app)] else [])"
    by blast
next
  assume a: "uc_UpdateAdoptionApplicationStatus e i r w = (Inr app, w')"
  from uc_Update_Inr[OF a] obtain w1 where
    r: "repo_UpdateAdoptionApplicationStatus e i (req_NewStatus r) (req_ReviewNotes r) w
          = (Inr app, w1)"
    and p: "w' = snd (PublishAdoptionApplicationStatusUpdated e app
                   (snd (cache_DeleteAdoptionApplication e i w1)))" by blast
  let ?rc = "RepoUpdateStatus i (req_NewStatus r) (req_ReviewNotes r)"
  let ?w2 = "snd (cache_DeleteAdoptionApplication e i w1)"
  note R = repo_Update_Inr[OF r]
  have c1: "calls w1 = calls w @ [?rc]" using R by (simp add: record_call_def)
  have f1: "find (\<lambda>d. ID d = i) (collection w1) = Some app" using R by blast
  have de: "cache_DeleteAdoptionApplication e i w1
             = (fst (cache_DeleteAdoptionApplication e i w1), ?w2)" by simp
  note D = cache_delete_effect[OF de]
  have pe: "PublishAdoptionApplicationStatusUpdated e app ?w2
              = (fst (PublishAdoptionApplicationStatusUpdated e app ?w2), w')"
    using p by simp
  note P = publish_updated_effect[OF pe]
  let ?cs = "?rc # CacheDelete i # PublishStatusUpdated app #
       (if marshal_err e = None
        then [NatsPublish ''adoption.application.status.updated'' (status_updated_eventData app)]
        else [])"
  have "calls w' = calls w @ ?cs" using P D c1 by simp
  moreover have "publish_attempts ?cs = [PublishStatusUpdated app]"
    by (simp add: publish_attempts_def)
  moreover have "nats_publishes ?cs = (if marshal_err e = None
        then [NatsPublish ''adoption.application.status.updated'' (status_updated_eventData app)]
        else [])"
    by (simp add: nats_publishes_def)
  moreover have "ID app = i" using f1 by (auto simp: find_Some_iff)
  moreover have "stored w' i = Some app"
    using f1 P D by (simp add: stored_def)
  moreover have "json_field (status_updated_eventData app) ''application_id''
       = Some (JString (ID app))"
    by (simp add: json_field_def status_updated_eventData_def)
  ultimately show "\<exists>cs. calls w' = calls w @ cs \<and>
         publish_attempts cs = [PublishStatusUpdated app] \<and>
         ID app = i \<and> stored w' i = Some app \<and>
         json_field (status_updated_eventData app) ''application_id'' = Some (JString (ID app)) \<and>
         nats_publishes cs =
           (if marshal_err e = None
            then [NatsPublish ''adoption.application.status.updated''
                    (status_updated_eventData app)] else [])"
    by blast
qed

theorem one_publish_attempt_per_successful_mutation_witness:
  "fst (uc_CreateAdoptionApplication env_ok req_create world_empty) = Inr created_app \<and>
   publish_attempts (calls (snd (uc_CreateAdoptionApplication env_ok req_create world_empty)))
     = [PublishCreated created_app] \<and>
   fst (uc_UpdateAdoptionApplicationStatus env_publish_fails ''a1'' req_approve world_one)
     = Inr approved_app \<and>
   publish_attempts
     (calls (snd (uc_UpdateAdoptionApplicationStatus env_publish_fails ''a1'' req_approve
                    world_one)))
     = [PublishStatusUpdated approved_app]"
proof -
  let ?c = "uc_CreateAdoptionApplication env_ok req_create world_empty"
  let ?u = "uc_UpdateAdoptionApplicationStatus env_publish_fails ''a1'' req_approve world_one"
  have f: "fst ?c = Inr created_app"
    by (simp add: model_defs input_defs status_defs)
  have g: "fst ?u = Inr approved_app"
    by (simp add: model_defs input_defs status_defs)
  have e: "calls world_empty = []" "calls world_one = []"
    by (simp_all add: input_defs)
  from one_publish_attempt_per_successful_mutation[where e = env_ok and reqData = req_create
      and w = world_empty and app = created_app and w' = "snd ?c"]
    pair_of_fst[OF f] e
  have 1: "publish_attempts (calls (snd ?c)) = [PublishCreated created_app]" by auto
  from one_publish_attempt_per_successful_mutation[where e = env_publish_fails and i = "''a1''"
      and r = req_approve and w = world_one and app = approved_app and w' = "snd ?u"]
    pair_of_fst[OF g] e
  have 2: "publish_attempts (calls (snd ?u)) = [PublishStatusUpdated approved_app]" by auto
  from f g 1 2 show ?thesis by simp
qed

text \<open>
  The use case on an id that matches no stored application: an error, and the only
  change of the world is the calls recorded, none of them a cache invalidation or a
  publish.
\<close>

lemma update_status_unknown_id_not_found:
  assumes "\<forall>d \<in> set (collection w). ID d \<noteq> i"
  shows "(\<exists>err cs. uc_UpdateAdoptionApplicationStatus e i r w
                      = (Inl err, w\<lparr>calls := calls w @ cs\<rparr>) \<and>
            publish_attempts cs = [] \<and> nats_publishes cs = [] \<and> cache_deletes cs = []) \<and>
         (i \<noteq> [] \<and> IsValidApplicationStatus (req_NewStatus r) \<and> update_err e = None \<longrightarrow>
            uc_UpdateAdoptionApplicationStatus e i r w =
              (Inl (Wrapped ''could not update application status''
                      (ErrorNew ''adoption application not found for status update'')),
               record_call (RepoUpdateStatus i (req_NewStatus r) (req_ReviewNotes r)) w))"
proof -
  have m: "MatchedCount i (collection w) = 0"
    using assms by (simp add: MatchedCount_def)
  have s: "set_first i f (collection w) = collection w" for f
    using assms by (rule set_first_no_match)
  let ?rc = "RepoUpdateStatus i (req_NewStatus r) (req_ReviewNotes r)"
  have a: "\<exists>err cs. uc_UpdateAdoptionApplicationStatus e i r w
                      = (Inl err, w\<lparr>calls := calls w @ cs\<rparr>) \<and>
            publish_attempts cs = [] \<and> nats_publishes cs = [] \<and> cache_deletes cs = []"
  proof (cases "i = [] \<or> \<not> IsValidApplicationStatus (req_NewStatus r)")
    case True
    then have "\<exists>err. uc_UpdateAdoptionApplicationStatus e i r w = (Inl err, w)"
      by (auto simp: uc_UpdateAdoptionApplicationStatus_def)
    then obtain err where "uc_UpdateAdoptionApplicationStatus e i r w = (Inl err, w)"
      by blast
    then have "uc_UpdateAdoptionApplicationStatus e i r w = (Inl err, w\<lparr>calls := calls w @ []\<rparr>) \<and>
        publish_attempts [] = [] \<and> nats_publishes [] = [] \<and> cache_deletes [] = []"
      by (simp add: publish_attempts_def nats_publishes_def cache_deletes_def)
    then show ?thesis by blast
  next
    case False
    then have "\<exists>err. uc_UpdateAdoptionApplicationStatus e i r w
                 = (Inl err, w\<lparr>calls := calls w @ [?rc]\<rparr>)"
      using m s
      by (auto simp: uc_UpdateAdoptionApplicationStatus_def
          repo_UpdateAdoptionApplicationStatus_def UpdateOne_def record_call_def Let_def
          split: option.splits)
    moreover have "publish_attempts [?rc] = [] \<and> nats_publishes [?rc] = [] \<and>
                   cache_deletes [?rc] = []"
      by (simp add: publish_attempts_def nats_publishes_def cache_deletes_def)
    ultimately show ?thesis by blast
  qed
  have b: "i \<noteq> [] \<and> IsValidApplicationStatus (req_NewStatus r) \<and> update_err e = None \<longrightarrow>
            uc_UpdateAdoptionApplicationStatus e i r w =
              (Inl (Wrapped ''could not update application status''
                      (ErrorNew ''adoption application not found for status update'')),
               record_call ?rc w)"
    using m s
    by (auto simp: uc_UpdateAdoptionApplicationStatus_def
        repo_UpdateAdoptionApplicationStatus_def UpdateOne_def record_call_def Let_def)
  from a b show ?thesis by blast
qed

section \<open>Adoption service: cache-aside read and the status-update write\<close>

lemma find_by_id_calls: "find_by_id e i (w\<lparr>calls := cs\<rparr>) = find_by_id e i w"
  by (simp add: find_by_id_def FindOne_def split: option.splits)

text \<open>
  C2. For a non-empty id, \<open>GetAdoptionApplicationByID\<close> on a cache hit returns the
  cached value and the only call made is the cache read. On a cache miss or a cache
  error it reads the repository: a repository error is returned as it is, and on
  repository success the repository value is returned after one cache set with a
  TTL of one hour, whatever the outcome of that cache set. No cache error reaches the
  caller.
\<close>

theorem get_by_id_cache_aside:
  assumes "applicationID \<noteq> []"
  shows
   "(redis_get_err e = None \<and> cached w applicationID = Some (capp, ttl) \<longrightarrow>
       uc_GetAdoptionApplicationByID e applicationID w
         = (Inr capp, record_call (CacheGet applicationID) w)) \<and>
    (redis_get_err e \<noteq> None \<or> cached w applicationID = None \<longrightarrow>
       (case find_by_id e applicationID w of
          Inl err \<Rightarrow>
            uc_GetAdoptionApplicationByID e applicationID w
              = (Inl err, w\<lparr>calls := calls w @ [CacheGet applicationID,
                                                    RepoGetByID applicationID]\<rparr>)
        | Inr app \<Rightarrow>
            fst (uc_GetAdoptionApplicationByID e applicationID w) = Inr app \<and>
            calls (snd (uc_GetAdoptionApplicationByID e applicationID w))
              = calls w @ [CacheGet applicationID, RepoGetByID applicationID,
                           CacheSet applicationID app 3600000000000] \<and>
            collection (snd (uc_GetAdoptionApplicationByID e applicationID w)) = collection w \<and>
            (redis_set_err e = None \<longrightarrow>
               cached (snd (uc_GetAdoptionApplicationByID e applicationID w)) applicationID
                 = Some (app, 3600000000000))))"
proof (intro conjI impI)
  assume "redis_get_err e = None \<and> cached w applicationID = Some (capp, ttl)"
  then show "uc_GetAdoptionApplicationByID e applicationID w
         = (Inr capp, record_call (CacheGet applicationID) w)"
    using assms
    by (simp add: uc_GetAdoptionApplicationByID_def cache_GetAdoptionApplication_def
        cached_def appKey_def record_call_def Let_def)
next
  assume m: "redis_get_err e \<noteq> None \<or> cached w applicationID = None"
  let ?w1 = "record_call (CacheGet applicationID) w"
  from m have "\<exists>cerr. cache_GetAdoptionApplication e applicationID w = (Inl cerr, ?w1)"
    by (auto simp: cache_GetAdoptionApplication_def cached_def appKey_def record_call_def
        Let_def split: option.splits)
  then obtain cerr where c: "cache_GetAdoptionApplication e applicationID w = (Inl cerr, ?w1)"
    by blast
  let ?w2 = "record_call (RepoGetByID applicationID) ?w1"
  have r: "repo_GetAdoptionApplicationByID e applicationID ?w1
             = (find_by_id e applicationID w, ?w2)"
    by (simp add: repo_GetAdoptionApplicationByID_def Let_def record_call_def find_by_id_calls)
  show "case find_by_id e applicationID w of
          Inl err \<Rightarrow>
            uc_GetAdoptionApplicationByID e applicationID w
              = (Inl err, w\<lparr>calls := calls w @ [CacheGet applicationID,
                                                    RepoGetByID applicationID]\<rparr>)
        | Inr app \<Rightarrow>
            fst (uc_GetAdoptionApplicationByID e applicationID w) = Inr app \<and>
            calls (snd (uc_GetAdoptionApplicationByID e applicationID w))
              = calls w @ [CacheGet applicationID, RepoGetByID applicationID,
                           CacheSet applicationID app 3600000000000] \<and>
            collection (snd (uc_GetAdoptionApplicationByID e applicationID w)) = collection w \<and>
            (redis_set_err e = None \<longrightarrow>
               cached (snd (uc_GetAdoptionApplicationByID e applicationID w)) applicationID
                 = Some (app, 3600000000000))"
  proof (cases "find_by_id e applicationID w")
    case (Inl err)
    then show ?thesis
      using assms c r
      by (simp add: uc_GetAdoptionApplicationByID_def record_call_def)
  next
    case (Inr app)
    then show ?thesis
      using assms c r
      by (simp add: uc_GetAdoptionApplicationByID_def cache_SetAdoptionApplication_def
          record_call_def cached_def appKey_def Hour_def Second_def Let_def
          split: option.splits prod.splits)
  qed
qed

theorem get_by_id_cache_aside_witness:
  "uc_GetAdoptionApplicationByID env_ok ''a1'' world_cached
     = (Inr app_one, record_call (CacheGet ''a1'') world_cached) \<and>
   fst (uc_GetAdoptionApplicationByID env_cache_down ''a1'' world_one) = Inr app_one \<and>
   calls (snd (uc_GetAdoptionApplicationByID env_cache_down ''a1'' world_one))
     = [CacheGet ''a1'', RepoGetByID ''a1'', CacheSet ''a1'' app_one 3600000000000]"
proof -
  have n: "''a1'' \<noteq> []" by simp
  have h: "redis_get_err env_ok = None \<and>
           cached world_cached ''a1'' = Some (app_one, 3600000000000)"
    by (simp add: model_defs input_defs)
  have m: "redis_get_err env_cache_down \<noteq> None \<or> cached world_one ''a1'' = None"
    by (simp add: model_defs input_defs)
  have f: "find_by_id env_cache_down ''a1'' world_one = Inr app_one"
    by (simp add: model_defs input_defs)
  have e: "calls world_one = []" by (simp add: input_defs)
  from get_by_id_cache_aside[OF n, of env_ok world_cached app_one 3600000000000] h
  have 1: "uc_GetAdoptionApplicationByID env_ok ''a1'' world_cached
     = (Inr app_one, record_call (CacheGet ''a1'') world_cached)" by blast
  note T = get_by_id_cache_aside[OF n, of env_cache_down world_one app_one 0,
      THEN conjunct2, rule_format, OF m]
  from T f e
  have 2: "fst (uc_GetAdoptionApplicationByID env_cache_down ''a1'' world_one) = Inr app_one \<and>
   calls (snd (uc_GetAdoptionApplicationByID env_cache_down ''a1'' world_one))
     = [CacheGet ''a1'', RepoGetByID ''a1'', CacheSet ''a1'' app_one 3600000000000]"
    by simp
  from 1 2 show ?thesis by blast
qed

text \<open>
  C6, as the code has it. A successful status update leaves every other stored
  application untouched, and in the application with the given id it overwrites
  exactly three fields: the status, the review notes (with the notes of the request,
  also when they are empty) and \<open>updated_at\<close>; id, user id, pet id, application notes
  and \<open>created_at\<close> keep their stored values.
\<close>

theorem status_update_writes_three_fields:
  assumes "uc_UpdateAdoptionApplicationStatus e i r w = (Inr app, w')"
    and "stored w j = Some d"
  shows "\<exists>d'. stored w' j = Some d' \<and>
           ID d' = ID d \<and> UserID d' = UserID d \<and> PetID d' = PetID d \<and>
           ApplicationNotes d' = ApplicationNotes d \<and> CreatedAt d' = CreatedAt d \<and>
           (j \<noteq> i \<longrightarrow> d' = d) \<and>
           (j = i \<longrightarrow> d' = app \<and> Status d' = req_NewStatus r \<and>
                      ReviewNotes d' = req_ReviewNotes r \<and> UpdatedAt d' = now e)"
proof -
  let ?f = "\<lambda>d. d\<lparr>Status := req_NewStatus r, ReviewNotes := req_ReviewNotes r,
                    UpdatedAt := now e\<rparr>"
  from uc_Update_Inr[OF assms(1)] obtain w1 where
    r: "repo_UpdateAdoptionApplicationStatus e i (req_NewStatus r) (req_ReviewNotes r) w
          = (Inr app, w1)"
    and p: "w' = snd (PublishAdoptionApplicationStatusUpdated e app
                   (snd (cache_DeleteAdoptionApplication e i w1)))" by blast
  let ?w2 = "snd (cache_DeleteAdoptionApplication e i w1)"
  note R = repo_Update_Inr[OF r]
  have c1: "collection w1 = set_first i ?f (collection w)"
    using R by (simp add: record_call_def)
  have f1: "find (\<lambda>d. ID d = i) (collection w1) = Some app" using R by blast
  have c2: "collection ?w2 = collection w1"
    using cache_delete_effect[of e i w1 "fst (cache_DeleteAdoptionApplication e i w1)" ?w2]
    by simp
  have c3: "collection w' = collection ?w2"
    using p publish_updated_effect[of e app ?w2
        "fst (PublishAdoptionApplicationStatusUpdated e app ?w2)" w'] by simp
  have "stored w' j = map_option (\<lambda>d. if j = i then ?f d else d) (stored w j)"
    using c1 c2 c3 find_set_first[of ?f j i "collection w"] by (simp add: stored_def)
  then have s: "stored w' j = Some (if j = i then ?f d else d)"
    using assms(2) by simp
  have a: "j = i \<Longrightarrow> ?f d = app"
    using s f1 c2 c3 by (simp add: stored_def)
  show ?thesis
  proof (cases "j = i")
    case True
    with s a show ?thesis by auto
  next
    case False
    with s show ?thesis by simp
  qed
qed

theorem status_update_writes_three_fields_witness:
  "fst (uc_UpdateAdoptionApplicationStatus env_ok ''a1'' req_approve world_one)
     = Inr approved_app \<and>
   stored world_one ''a1'' = Some app_one \<and>
   stored (snd (uc_UpdateAdoptionApplicationStatus env_ok ''a1'' req_approve world_one)) ''a1''
     = Some approved_app \<and>
   ApplicationNotes approved_app = ApplicationNotes app_one \<and>
   CreatedAt approved_app = CreatedAt app_one"
proof -
  let ?u = "uc_UpdateAdoptionApplicationStatus env_ok ''a1'' req_approve world_one"
  have f: "fst ?u = Inr approved_app"
    by (simp add: model_defs input_defs status_defs)
  have s: "stored world_one ''a1'' = Some app_one"
    by (simp add: model_defs input_defs)
  from status_update_writes_three_fields[OF pair_of_fst[OF f] s] f s
  show ?thesis by auto
qed

theorem review_notes_overwritten_counterexample:
  "map_option ReviewNotes (stored world_one ''a1'') = Some ''first look'' \<and>
   req_ReviewNotes req_reject_no_notes = [] \<and>
   fst (uc_UpdateAdoptionApplicationStatus env_ok ''a1'' req_reject_no_notes world_one)
     = Inr rejected_app \<and>
   map_option ReviewNotes
     (stored (snd (uc_UpdateAdoptionApplicationStatus env_ok ''a1'' req_reject_no_notes
                     world_one)) ''a1'') = Some []"
  by (simp add: model_defs input_defs status_defs rejected_app_def)

lemmas pb_defs = pb_APPLICATION_STATUS_UNSPECIFIED_def pb_PENDING_REVIEW_def pb_APPROVED_def
  pb_REJECTED_def pb_CANCELLED_BY_USER_def

lemma one_call_prefix_of_update:
  assumes "uc_UpdateAdoptionApplicationStatus e i r w = (Inr app, w')"
  shows "\<exists>cs. calls (snd (uc_UpdateAdoptionApplicationStatus e i r w))
           = calls w @ RepoUpdateStatus i (req_NewStatus r) (req_ReviewNotes r) # cs"
proof -
  from uc_Update_Inr[OF assms] obtain w1 where
    r: "repo_UpdateAdoptionApplicationStatus e i (req_NewStatus r) (req_ReviewNotes r) w
          = (Inr app, w1)"
    and p: "w' = snd (PublishAdoptionApplicationStatusUpdated e app
                   (snd (cache_DeleteAdoptionApplication e i w1)))" by blast
  let ?w2 = "snd (cache_DeleteAdoptionApplication e i w1)"
  have c1: "calls w1 = calls w @ [RepoUpdateStatus i (req_NewStatus r) (req_ReviewNotes r)]"
    using repo_Update_Inr[OF r] by (simp add: record_call_def)
  have c2: "calls ?w2 = calls w1 @ [CacheDelete i]"
    using cache_delete_effect[of e i w1 "fst (cache_DeleteAdoptionApplication e i w1)" ?w2]
    by simp
  have c3: "\<exists>ps. calls w' = calls ?w2 @ ps"
    using p publish_updated_effect[of e app ?w2
        "fst (PublishAdoptionApplicationStatusUpdated e app ?w2)" w'] by simp
  from c1 c2 c3 assms show ?thesis by auto
qed

lemma pb_declared_passes_guard:
  assumes "rq_ApplicationId req \<noteq> [] \<and> rq_NewStatus req \<in> {0, 1, 2, 3, 5}"
  shows "\<not> (pbApplicationStatusToDomain (rq_NewStatus req) = StatusAppUnspecified \<and>
            rq_NewStatus req \<noteq> pb_APPLICATION_STATUS_UNSPECIFIED)"
  using assms by (auto simp: pbApplicationStatusToDomain_def pb_defs status_defs)

text \<open>
  C5, as the code has it. \<open>UpdateAdoptionApplicationStatus\<close> accepts as new status the
  five declared constants: the four statuses and also the \<open>UNSPECIFIED\<close> sentinel.
  Every other status string is rejected with the invalid-status error before any
  call is made, so nothing is written; an accepted status goes on to the repository
  update. The gRPC handler forwards each declared enum number, 0 (unspecified)
  included, to the use case, and rejects an undeclared number with
  \<open>InvalidArgument\<close> without calling the use case.
\<close>

theorem update_status_accepts_declared_constants:
  "(IsValidApplicationStatus s \<longleftrightarrow>
      s \<in> {StatusAppPendingReview, StatusAppApproved, StatusAppRejected,
           StatusAppCancelledByUser, StatusAppUnspecified}) \<and>
   (i \<noteq> [] \<and> \<not> IsValidApplicationStatus (req_NewStatus r) \<longrightarrow>
      uc_UpdateAdoptionApplicationStatus e i r w
        = (Inl (ErrorNew ''invalid new application status''), w)) \<and>
   (i \<noteq> [] \<and> IsValidApplicationStatus (req_NewStatus r) \<longrightarrow>
      (\<exists>cs. calls (snd (uc_UpdateAdoptionApplicationStatus e i r w))
              = calls w @ RepoUpdateStatus i (req_NewStatus r) (req_ReviewNotes r) # cs)) \<and>
   (rq_ApplicationId req \<noteq> [] \<and> rq_NewStatus req \<in> {0, 1, 2, 3, 5} \<longrightarrow>
      IsValidApplicationStatus (pbApplicationStatusToDomain (rq_NewStatus req)) \<and>
      snd (handler_UpdateAdoptionApplicationStatus e req w)
        = snd (uc_UpdateAdoptionApplicationStatus e (rq_ApplicationId req)
                 \<lparr>req_NewStatus = pbApplicationStatusToDomain (rq_NewStatus req),
                  req_ReviewNotes = rq_ReviewNotes req\<rparr> w)) \<and>
   (rq_ApplicationId req \<noteq> [] \<and> rq_NewStatus req \<notin> {0, 1, 2, 3, 5} \<longrightarrow>
      handler_UpdateAdoptionApplicationStatus e req w
        = (Inl (InvalidArgument, ''Invalid new application status provided in request''), w))"
proof (intro conjI impI)
  show "IsValidApplicationStatus s \<longleftrightarrow>
      s \<in> {StatusAppPendingReview, StatusAppApproved, StatusAppRejected,
           StatusAppCancelledByUser, StatusAppUnspecified}"
    by (auto simp: IsValidApplicationStatus_def)
next
  assume "i \<noteq> [] \<and> \<not> IsValidApplicationStatus (req_NewStatus r)"
  then show "uc_UpdateAdoptionApplicationStatus e i r w
        = (Inl (ErrorNew ''invalid new application status''), w)"
    by (simp add: uc_UpdateAdoptionApplicationStatus_def)
next
  assume a: "i \<noteq> [] \<and> IsValidApplicationStatus (req_NewStatus r)"
  let ?rc = "RepoUpdateStatus i (req_NewStatus r) (req_ReviewNotes r)"
  show "\<exists>cs. calls (snd (uc_UpdateAdoptionApplicationStatus e i r w)) = calls w @ ?rc # cs"
  proof (cases "fst (uc_UpdateAdoptionApplicationStatus e i r w)")
    case (Inr app)
    from one_call_prefix_of_update[OF pair_of_fst[OF Inr]] show ?thesis .
  next
    case (Inl err)
    with a have "calls (snd (uc_UpdateAdoptionApplicationStatus e i r w)) = calls w @ ?rc # []"
      by (auto simp: uc_UpdateAdoptionApplicationStatus_def
          repo_UpdateAdoptionApplicationStatus_def UpdateOne_def record_call_def Let_def
          split: option.splits prod.splits sum.splits if_splits)
    then show ?thesis by blast
  qed
next
  assume a: "rq_ApplicationId req \<noteq> [] \<and> rq_NewStatus req \<in> {0, 1, 2, 3, 5}"
  then show "IsValidApplicationStatus (pbApplicationStatusToDomain (rq_NewStatus req))"
    by (auto simp: IsValidApplicationStatus_def pbApplicationStatusToDomain_def pb_defs)
  from a pb_declared_passes_guard[OF a]
  show "snd (handler_UpdateAdoptionApplicationStatus e req w)
        = snd (uc_UpdateAdoptionApplicationStatus e (rq_ApplicationId req)
                 \<lparr>req_NewStatus = pbApplicationStatusToDomain (rq_NewStatus req),
                  req_ReviewNotes = rq_ReviewNotes req\<rparr> w)"
    by (simp add: handler_UpdateAdoptionApplicationStatus_def errors_Is_new_def Let_def
        if_not_P[OF pb_declared_passes_guard[OF a]] split: prod.splits sum.splits)
next
  assume a: "rq_ApplicationId req \<noteq> [] \<and> rq_NewStatus req \<notin> {0, 1, 2, 3, 5}"
  then have "pbApplicationStatusToDomain (rq_NewStatus req) = StatusAppUnspecified \<and>
              rq_NewStatus req \<noteq> pb_APPLICATION_STATUS_UNSPECIFIED"
    by (auto simp: pbApplicationStatusToDomain_def pb_defs)
  with a show "handler_UpdateAdoptionApplicationStatus e req w
        = (Inl (InvalidArgument, ''Invalid new application status provided in request''), w)"
    by (simp add: handler_UpdateAdoptionApplicationStatus_def Let_def)
qed

theorem update_status_accepts_declared_constants_witness:
  "uc_UpdateAdoptionApplicationStatus env_ok ''a1'' req_adopted world_one
     = (Inl (ErrorNew ''invalid new application status''), world_one) \<and>
   handler_UpdateAdoptionApplicationStatus env_ok rpc_unknown world_one
     = (Inl (InvalidArgument, ''Invalid new application status provided in request''),
        world_one) \<and>
   stored (snd (handler_UpdateAdoptionApplicationStatus env_ok rpc_unspecified world_one)) ''a1''
     = Some unspecified_app"
proof -
  have a: "''a1'' \<noteq> [] \<and> \<not> IsValidApplicationStatus (req_NewStatus req_adopted)"
    by (simp add: req_adopted_def IsValidApplicationStatus_def status_defs)
  have b: "rq_ApplicationId rpc_unknown \<noteq> [] \<and> rq_NewStatus rpc_unknown \<notin> {0, 1, 2, 3, 5}"
    by (simp add: rpc_unknown_def)
  have c: "rq_ApplicationId rpc_unspecified \<noteq> [] \<and>
           rq_NewStatus rpc_unspecified \<in> {0, 1, 2, 3, 5}"
    by (simp add: rpc_unspecified_def)
  have d: "stored (snd (uc_UpdateAdoptionApplicationStatus env_ok
                 (rq_ApplicationId rpc_unspecified)
                 \<lparr>req_NewStatus = pbApplicationStatusToDomain (rq_NewStatus rpc_unspecified),
                  req_ReviewNotes = rq_ReviewNotes rpc_unspecified\<rparr> world_one)) ''a1''
             = Some unspecified_app"
    by (simp add: model_defs input_defs status_defs rpc_unspecified_def
        pbApplicationStatusToDomain_def pb_defs)
  from update_status_accepts_declared_constants[where i = "''a1''" and r = req_adopted
      and e = env_ok and w = world_one and req = rpc_unknown] a b
  have 1: "uc_UpdateAdoptionApplicationStatus env_ok ''a1'' req_adopted world_one
     = (Inl (ErrorNew ''invalid new application status''), world_one) \<and>
   handler_UpdateAdoptionApplicationStatus env_ok rpc_unknown world_one
     = (Inl (InvalidArgument, ''Invalid new application status provided in request''),
        world_one)" by blast
  note T = update_status_accepts_declared_constants[where e = env_ok and w = world_one
      and req = rpc_unspecified, THEN conjunct2, THEN conjunct2, THEN conjunct2,
      THEN conjunct1, rule_format, OF c]
  from T d
  have 2: "stored (snd (handler_UpdateAdoptionApplicationStatus env_ok rpc_unspecified
                          world_one)) ''a1'' = Some unspecified_app" by simp
  from 1 2 show ?thesis by blast
qed

theorem unspecified_status_accepted_counterexample:
  "req_NewStatus req_unspecified = StatusAppUnspecified \<and>
   stored world_one ''a1'' = Some app_one \<and>
   Status app_one = StatusAppPendingReview \<and>
   fst (uc_UpdateAdoptionApplicationStatus env_ok ''a1'' req_unspecified world_one)
     = Inr unspecified_app \<and>
   stored (snd (uc_UpdateAdoptionApplicationStatus env_ok ''a1'' req_unspecified world_one)) ''a1''
     = Some unspecified_app \<and>
   Status unspecified_app = StatusAppUnspecified"
  by (simp add: model_defs input_defs status_defs)

section \<open>Adoption service: the answer for an unknown id\<close>

lemma handler_on_uc_error:
  assumes "rq_ApplicationId req \<noteq> []"
    and "\<not> (pbApplicationStatusToDomain (rq_NewStatus req) = StatusAppUnspecified \<and>
            rq_NewStatus req \<noteq> pb_APPLICATION_STATUS_UNSPECIFIED)"
    and "uc_UpdateAdoptionApplicationStatus e (rq_ApplicationId req)
           \<lparr>req_NewStatus = pbApplicationStatusToDomain (rq_NewStatus req),
            req_ReviewNotes = rq_ReviewNotes req\<rparr> w = (Inl err, w1)"
  shows "handler_UpdateAdoptionApplicationStatus e req w
           = (Inl (Internal, ''Failed to update application status: '' @ Error_msg err), w1)"
  using assms(1,3)
  by (simp add: handler_UpdateAdoptionApplicationStatus_def errors_Is_new_def Let_def
      if_not_P[OF assms(2)])

text \<open>
  C3. \<open>UpdateAdoptionApplicationStatus\<close> called with an id that matches no stored
  application makes no publish attempt and no cache invalidation: store, cache and
  bus are left as they were. The answer, however, is never \<open>NotFound\<close>. The use case
  returns the repository's "adoption application not found for status update",
  wrapped, but the handler's test for it, \<open>errors.Is\<close> against a newly made error,
  never holds, so the \<open>NotFound\<close> branch is dead and a well-formed request for an
  unknown id is answered with \<open>Internal\<close>.
\<close>

theorem unknown_id_update_answers_internal:
  assumes "\<forall>d \<in> set (collection w). ID d \<noteq> rq_ApplicationId req"
  shows "(\<exists>c m cs. handler_UpdateAdoptionApplicationStatus e req w
                      = (Inl (c, m), w\<lparr>calls := calls w @ cs\<rparr>) \<and>
            c \<noteq> NotFound \<and>
            publish_attempts cs = [] \<and> nats_publishes cs = [] \<and> cache_deletes cs = []) \<and>
         (rq_ApplicationId req \<noteq> [] \<and> rq_NewStatus req \<in> {0, 1, 2, 3, 5} \<and>
          update_err e = None \<longrightarrow>
            uc_UpdateAdoptionApplicationStatus e (rq_ApplicationId req)
               \<lparr>req_NewStatus = pbApplicationStatusToDomain (rq_NewStatus req),
                req_ReviewNotes = rq_ReviewNotes req\<rparr> w =
              (Inl (Wrapped ''could not update application status''
                      (ErrorNew ''adoption application not found for status update'')),
               record_call (RepoUpdateStatus (rq_ApplicationId req)
                              (pbApplicationStatusToDomain (rq_NewStatus req))
                              (rq_ReviewNotes req)) w) \<and>
            handler_UpdateAdoptionApplicationStatus e req w =
              (Inl (Internal, ''Failed to update application status: could not update application status: adoption application not found for status update''),
               record_call (RepoUpdateStatus (rq_ApplicationId req)
                              (pbApplicationStatusToDomain (rq_NewStatus req))
                              (rq_ReviewNotes req)) w))"
proof -
  let ?i = "rq_ApplicationId req"
  let ?r = "\<lparr>req_NewStatus = pbApplicationStatusToDomain (rq_NewStatus req),
             req_ReviewNotes = rq_ReviewNotes req\<rparr>"
  let ?g = "pbApplicationStatusToDomain (rq_NewStatus req) = StatusAppUnspecified \<and>
            rq_NewStatus req \<noteq> pb_APPLICATION_STATUS_UNSPECIFIED"
  note U = update_status_unknown_id_not_found[OF assms, of e ?r]
  have e0: "publish_attempts [] = [] \<and> nats_publishes [] = [] \<and> cache_deletes [] = []"
    by (simp add: publish_attempts_def nats_publishes_def cache_deletes_def)
  have w0: "w = w\<lparr>calls := calls w @ []\<rparr>" by simp
  have a: "\<exists>c m cs. handler_UpdateAdoptionApplicationStatus e req w
                      = (Inl (c, m), w\<lparr>calls := calls w @ cs\<rparr>) \<and>
            c \<noteq> NotFound \<and>
            publish_attempts cs = [] \<and> nats_publishes cs = [] \<and> cache_deletes cs = []"
  proof (cases "?i = [] \<or> ?g")
    case True
    then have "\<exists>m. handler_UpdateAdoptionApplicationStatus e req w = (Inl (InvalidArgument, m), w)"
      by (auto simp: handler_UpdateAdoptionApplicationStatus_def Let_def)
    then obtain m where "handler_UpdateAdoptionApplicationStatus e req w
                           = (Inl (InvalidArgument, m), w)" by blast
    then have "handler_UpdateAdoptionApplicationStatus e req w
                 = (Inl (InvalidArgument, m), w\<lparr>calls := calls w @ []\<rparr>) \<and>
               InvalidArgument \<noteq> NotFound"
      by simp
    with e0 show ?thesis by blast
  next
    case False
    then have n: "?i \<noteq> []" and g: "\<not> ?g" by blast+
    from U obtain err cs where
      u: "uc_UpdateAdoptionApplicationStatus e ?i ?r w = (Inl err, w\<lparr>calls := calls w @ cs\<rparr>)"
      and q: "publish_attempts cs = [] \<and> nats_publishes cs = [] \<and> cache_deletes cs = []"
      by blast
    from handler_on_uc_error[OF n g u]
    have "handler_UpdateAdoptionApplicationStatus e req w
            = (Inl (Internal, ''Failed to update application status: '' @ Error_msg err),
               w\<lparr>calls := calls w @ cs\<rparr>) \<and> Internal \<noteq> NotFound"
      by simp
    with q show ?thesis by blast
  qed
  have b: "?i \<noteq> [] \<and> rq_NewStatus req \<in> {0, 1, 2, 3, 5} \<and> update_err e = None \<longrightarrow>
            uc_UpdateAdoptionApplicationStatus e ?i ?r w =
              (Inl (Wrapped ''could not update application status''
                      (ErrorNew ''adoption application not found for status update'')),
               record_call (RepoUpdateStatus ?i (pbApplicationStatusToDomain (rq_NewStatus req))
                              (rq_ReviewNotes req)) w) \<and>
            handler_UpdateAdoptionApplicationStatus e req w =
              (Inl (Internal, ''Failed to update application status: could not update application status: adoption application not found for status update''),
               record_call (RepoUpdateStatus ?i (pbApplicationStatusToDomain (rq_NewStatus req))
                              (rq_ReviewNotes req)) w)"
  proof
    assume h: "?i \<noteq> [] \<and> rq_NewStatus req \<in> {0, 1, 2, 3, 5} \<and> update_err e = None"
    then have d: "?i \<noteq> [] \<and> rq_NewStatus req \<in> {0, 1, 2, 3, 5}" by blast
    note g = pb_declared_passes_guard[OF d]
    have v: "IsValidApplicationStatus (req_NewStatus ?r)"
      using d by (auto simp: IsValidApplicationStatus_def pbApplicationStatusToDomain_def pb_defs)
    from U h v have u: "uc_UpdateAdoptionApplicationStatus e ?i ?r w =
              (Inl (Wrapped ''could not update application status''
                      (ErrorNew ''adoption application not found for status update'')),
               record_call (RepoUpdateStatus ?i (pbApplicationStatusToDomain (rq_NewStatus req))
                              (rq_ReviewNotes req)) w)"
      by simp
    from h have n: "?i \<noteq> []" by blast
    from handler_on_uc_error[OF n g u] u
    show "uc_UpdateAdoptionApplicationStatus e ?i ?r w =
              (Inl (Wrapped ''could not update application status''
                      (ErrorNew ''adoption application not found for status update'')),
               record_call (RepoUpdateStatus ?i (pbApplicationStatusToDomain (rq_NewStatus req))
                              (rq_ReviewNotes req)) w) \<and>
            handler_UpdateAdoptionApplicationStatus e req w =
              (Inl (Internal, ''Failed to update application status: could not update application status: adoption application not found for status update''),
               record_call (RepoUpdateStatus ?i (pbApplicationStatusToDomain (rq_NewStatus req))
                              (rq_ReviewNotes req)) w)"
      by simp
  qed
  from a b show ?thesis by blast
qed

theorem unknown_id_update_answers_internal_witness:
  "stored world_one ''zz'' = None \<and>
   handler_UpdateAdoptionApplicationStatus env_ok rpc_missing world_one =
     (Inl (Internal, ''Failed to update application status: could not update application status: adoption application not found for status update''),
      record_call (RepoUpdateStatus ''zz'' ''APPROVED'' ''looks good'') world_one)"
proof -
  have h: "\<forall>d \<in> set (collection world_one). ID d \<noteq> rq_ApplicationId rpc_missing"
    by (simp add: input_defs rpc_missing_def)
  have c: "rq_ApplicationId rpc_missing \<noteq> [] \<and> rq_NewStatus rpc_missing \<in> {0, 1, 2, 3, 5} \<and>
           update_err env_ok = None"
    by (simp add: rpc_missing_def env_ok_def)
  have n: "stored world_one ''zz'' = None"
    by (simp add: stored_def input_defs)
  have p: "pbApplicationStatusToDomain (rq_NewStatus rpc_missing) = ''APPROVED''"
    "rq_ApplicationId rpc_missing = ''zz''" "rq_ReviewNotes rpc_missing = ''looks good''"
    by (simp_all add: rpc_missing_def pbApplicationStatusToDomain_def pb_defs status_defs)
  note T = unknown_id_update_answers_internal[OF h, of env_ok, THEN conjunct2, rule_format,
      OF c, THEN conjunct2]
  from T n p show ?thesis by simp
qed

section \<open>Notification service: enrichment before delivery\<close>

lemma SendEmail_effect:
  "SendEmail ne m s = (if send_err ne = None then None else Some (DriverError (the (send_err ne))),
                       s @ [CallSendEmail m])"
  by (simp add: SendEmail_def split: option.splits)

lemma created_no_enrichment:
  assumes "\<not> (\<exists>u. GetUserDetails ne (ev_UserID ev) = Inr (Some u) \<and> user_Email u \<noteq> []) \<or>
           \<not> (\<exists>p. GetPetDetails ne (ev_PetID ev) = Inr (Some p) \<and> pet_Name p \<noteq> [])"
  shows "\<exists>err s'. HandleAdoptionApplicationCreated ne ev s = (Some err, s') \<and>
           emails_sent s' = emails_sent s"
  using assms
  by (auto simp: HandleAdoptionApplicationCreated_def Let_def GetEmail_def GetName_def
      emails_sent_def split: sum.splits option.splits)

lemma created_enriched:
  assumes "GetUserDetails ne (ev_UserID ev) = Inr (Some u)" and "user_Email u \<noteq> []"
    and "GetPetDetails ne (ev_PetID ev) = Inr (Some p)" and "pet_Name p \<noteq> []"
  shows "(\<exists>m. emails_sent (snd (HandleAdoptionApplicationCreated ne ev s))
                = emails_sent s @ [CallSendEmail m] \<and> mail_to m = [user_Email u]) \<and>
         (fst (HandleAdoptionApplicationCreated ne ev s) = None \<longleftrightarrow> send_err ne = None)"
  using assms
  by (auto simp: HandleAdoptionApplicationCreated_def Let_def GetEmail_def GetName_def
      emails_sent_def SendEmail_effect)

lemma updated_no_enrichment:
  assumes "\<not> (\<exists>u. GetUserDetails ne (su_UserID ev) = Inr (Some u) \<and> user_Email u \<noteq> []) \<or>
           \<not> (\<exists>p. GetPetDetails ne (su_PetID ev) = Inr (Some p) \<and> pet_Name p \<noteq> [])"
  shows "\<exists>err s'. HandleAdoptionApplicationStatusUpdated ne ev s = (Some err, s') \<and>
           emails_sent s' = emails_sent s"
  using assms
  by (auto simp: HandleAdoptionApplicationStatusUpdated_def Let_def GetEmail_def GetName_def
      emails_sent_def split: sum.splits option.splits)

lemma updated_enriched:
  assumes "GetUserDetails ne (su_UserID ev) = Inr (Some u)" and "user_Email u \<noteq> []"
    and "GetPetDetails ne (su_PetID ev) = Inr (Some p)" and "pet_Name p \<noteq> []"
  shows "(\<exists>m. emails_sent (snd (HandleAdoptionApplicationStatusUpdated ne ev s))
                = emails_sent s @ [CallSendEmail m] \<and> mail_to m = [user_Email u]) \<and>
         (fst (HandleAdoptionApplicationStatusUpdated ne ev s) = None \<longleftrightarrow> send_err ne = None)"
  using assms
  by (auto simp: HandleAdoptionApplicationStatusUpdated_def Let_def GetEmail_def GetName_def
      emails_sent_def SendEmail_effect)

text \<open>
  C8. \<open>HandleAdoptionApplicationCreated\<close> and \<open>HandleAdoptionApplicationStatusUpdated\<close>
  send no email and return an error whenever the user fetch fails or yields no user or
  an empty email, or the pet fetch fails or yields no pet or an empty name. When both
  fetches succeed with non-empty email and name, exactly one \<open>SendEmail\<close> call is
  made, its only recipient is the fetched user's email address, and the handler's
  result is the outcome of that send.
\<close>

theorem email_only_after_both_enrichments:
  "((\<not> (\<exists>u. GetUserDetails ne (ev_UserID ev) = Inr (Some u) \<and> user_Email u \<noteq> []) \<or>
     \<not> (\<exists>p. GetPetDetails ne (ev_PetID ev) = Inr (Some p) \<and> pet_Name p \<noteq> [])) \<longrightarrow>
      (\<exists>err s'. HandleAdoptionApplicationCreated ne ev s = (Some err, s') \<and>
         emails_sent s' = emails_sent s)) \<and>
   (GetUserDetails ne (ev_UserID ev) = Inr (Some u) \<and> user_Email u \<noteq> [] \<and>
    GetPetDetails ne (ev_PetID ev) = Inr (Some p) \<and> pet_Name p \<noteq> [] \<longrightarrow>
      (\<exists>m. emails_sent (snd (HandleAdoptionApplicationCreated ne ev s))
              = emails_sent s @ [CallSendEmail m] \<and> mail_to m = [user_Email u]) \<and>
      (fst (HandleAdoptionApplicationCreated ne ev s) = None \<longleftrightarrow> send_err ne = None)) \<and>
   ((\<not> (\<exists>u. GetUserDetails ne (su_UserID sv) = Inr (Some u) \<and> user_Email u \<noteq> []) \<or>
     \<not> (\<exists>p. GetPetDetails ne (su_PetID sv) = Inr (Some p) \<and> pet_Name p \<noteq> [])) \<longrightarrow>
      (\<exists>err s'. HandleAdoptionApplicationStatusUpdated ne sv s = (Some err, s') \<and>
         emails_sent s' = emails_sent s)) \<and>
   (GetUserDetails ne (su_UserID sv) = Inr (Some u') \<and> user_Email u' \<noteq> [] \<and>
    GetPetDetails ne (su_PetID sv) = Inr (Some p') \<and> pet_Name p' \<noteq> [] \<longrightarrow>
      (\<exists>m. emails_sent (snd (HandleAdoptionApplicationStatusUpdated ne sv s))
              = emails_sent s @ [CallSendEmail m] \<and> mail_to m = [user_Email u']) \<and>
      (fst (HandleAdoptionApplicationStatusUpdated ne sv s) = None \<longleftrightarrow> send_err ne = None))"
  using created_no_enrichment[of ne ev s] created_enriched[of ne ev u p s]
    updated_no_enrichment[of ne sv s] updated_enriched[of ne sv u' p' s]
  by blast

theorem email_only_after_both_enrichments_witness:
  "(\<exists>err s'. HandleAdoptionApplicationCreated nenv_user_down event_created [] = (Some err, s')
      \<and> emails_sent s' = []) \<and>
   (\<exists>m. emails_sent (snd (HandleAdoptionApplicationStatusUpdated nenv_ok event_updated []))
           = [CallSendEmail m] \<and> mail_to m = [''testuser@example.com'']) \<and>
   fst (HandleAdoptionApplicationStatusUpdated nenv_ok event_updated []) = None"
proof -
  have a: "\<not> (\<exists>u. GetUserDetails nenv_user_down (ev_UserID event_created) = Inr (Some u) \<and>
                user_Email u \<noteq> [])"
    by (simp add: GetUserDetails_def nenv_user_down_def nenv_ok_def event_created_def)
  have b: "GetUserDetails nenv_ok (su_UserID event_updated) = Inr (Some user_one) \<and>
           user_Email user_one \<noteq> [] \<and>
           GetPetDetails nenv_ok (su_PetID event_updated) = Inr (Some pet_one) \<and>
           pet_Name pet_one \<noteq> []"
    by (simp add: GetUserDetails_def GetPetDetails_def nenv_ok_def event_updated_def
        user_one_def pet_one_def)
  have c: "send_err nenv_ok = None" "user_Email user_one = ''testuser@example.com''"
    "emails_sent [] = []"
    by (simp_all add: nenv_ok_def user_one_def emails_sent_def)
  note T = email_only_after_both_enrichments[where ne = nenv_user_down and ev = event_created
      and s = "[]", THEN conjunct1, rule_format, OF disjI1, OF a]
  note U = email_only_after_both_enrichments[where ne = nenv_ok and sv = event_updated
      and s = "[]" and u' = user_one and p' = pet_one,
      THEN conjunct2, THEN conjunct2, THEN conjunct2, rule_format, OF b]
  from T U c show ?thesis by simp
qed

section \<open>Consumer shutdown: order of the steps\<close>








end
